theory Spec2Isabelle
  imports Main
begin

section \<open>The generated IR\<close>

text \<open>
  The generator drives the llvm-node bindings. Only the part of the IR that the generator
  can observe or change is kept: a module is the list of its functions, a function the
  list of its basic blocks, a block the list of its instructions in order. An instruction
  carries a number of its own, which is the identity of the JavaScript object that the
  builder hands back. Operand types are not tracked.
\<close>

datatype llvmType = VoidTy | Int1Ty | DoubleTy | StringTy

definition isVoidTy :: "llvmType \<Rightarrow> bool" where
  "isVoidTy t = (t = VoidTy)"

datatype linkageTypes = ExternalLinkage | InternalLinkage

text \<open>A block is named by the index of its function in the module and its own index there.\<close>

type_synonym blockRef = "nat \<times> nat"

text \<open>
  \<open>llvm.Value\<close>: a function, an argument (function, position), the result of an
  instruction, or a constant. The class of an instruction result is part of the handle,
  as \<open>instanceof llvm.AllocaInst\<close> reads it.
\<close>

datatype llvmValue =
    Function nat
  | Argument nat nat
  | AllocaInst nat
  | LoadInst nat
  | StoreInst nat
  | FAddInst nat
  | CallInst nat
  | ConstantTrue
  | ConstantFalse
  | ConstantInt nat
  | GlobalStringPtr string
  | ConstantStruct llvmType "llvmValue list"

datatype instruction =
    Alloca llvmType
  | Load llvmValue
  | Store llvmValue llvmValue
  | FAdd llvmValue llvmValue
  | Call llvmValue "llvmValue list"
  | Ret llvmValue
  | RetVoid
  | Br blockRef
  | CondBr llvmValue blockRef blockRef

fun isTerminator :: "instruction \<Rightarrow> bool" where
  "isTerminator (Ret v) = True"
| "isTerminator RetVoid = True"
| "isTerminator (Br b) = True"
| "isTerminator (CondBr c t e) = True"
| "isTerminator i = False"

record basicBlock =
  blockName :: string
  instructions :: "(nat \<times> instruction) list"

record llvmFunction =
  functionName :: string
  returnType :: llvmType
  parameterTypes :: "llvmType list"
  linkage :: linkageTypes
  argumentNames :: "string list"
  basicBlocks :: "basicBlock list"

section \<open>Scopes\<close>

text \<open>
  What a scope binds and what lowering an expression hands back: an IR value, a nested
  scope (by its address in the store of scope objects), or JavaScript's \<open>undefined\<close>.
\<close>

datatype scopeValue = Undefined | ScopeRef nat | Value llvmValue

text \<open>
  Modelled from the spec: the class \<open>Scope\<close> of symbol-table.ts, which is not among the
  sources. A scope is a binding frame with an optional name and a mapping from
  identifier to bound value.
\<close>

record scope =
  scopeName :: "string option"
  bindings :: "string \<rightharpoonup> scopeValue"

section \<open>The generator's state\<close>

text \<open>
  \<open>LLVMGenerator\<close> owns a module, a builder with its insertion block, and a symbol
  table. Scope objects are shared and mutated through references, so they live in a
  store (\<open>scopes\<close>, the address is the index; the global scope is at address 0) and the
  symbol table is the stack of addresses, innermost first. \<open>warnings\<close> is what
  \<open>warn\<close> has reported so far and \<open>verifiedFunctions\<close> the functions that were
  handed to \<open>llvm.verifyFunction\<close>.
\<close>

record generator =
  moduleFunctions :: "llvmFunction list"
  insertBlock :: "blockRef option"
  nextId :: nat
  valueNames :: "nat \<rightharpoonup> string"
  scopes :: "scope list"
  scopeStack :: "nat list"
  warnings :: "string list"
  verifiedFunctions :: "nat list"

datatype failure =
    UnresolvedName string
  | UnsupportedExpression string
  | VerificationFailure string
  | TypeError string

text \<open>
  Modelled from the spec: \<open>error\<close> and \<open>warn\<close> of diagnostics.ts, which is not among the
  sources. \<open>error\<close> reports a fatal error with a message and is propagated to the caller
  of the entry point; \<open>warn\<close> records a warning and returns.
\<close>

definition error :: "string \<Rightarrow> failure + 'a" where
  "error message = Inl (UnsupportedExpression message)"

definition warn :: "string \<Rightarrow> generator \<Rightarrow> generator" where
  "warn message g = g\<lparr>warnings := warnings g @ [message]\<rparr>"

definition newGenerator :: generator where
  "newGenerator =
     \<lparr>moduleFunctions = [], insertBlock = None, nextId = 0, valueNames = Map.empty,
      scopes = [\<lparr>scopeName = None, bindings = Map.empty\<rparr>], scopeStack = [0],
      warnings = [], verifiedFunctions = []\<rparr>"

subsection \<open>The symbol table\<close>

text \<open>
  Modelled from the spec: \<open>SymbolTable\<close> and the methods of \<open>Scope\<close> (symbol-table.ts).
  \<open>get\<close> searches the innermost frame, then its ancestors, ending at the global frame,
  and fails with \<open>UnresolvedName\<close>; \<open>Scope.get\<close> looks into one frame only; \<open>Scope.set\<close>
  inserts or overwrites; \<open>withScope\<close> pushes a fresh frame for the duration of its body.
\<close>

definition globalScope :: nat where
  "globalScope = 0"

definition Scope_get :: "scope \<Rightarrow> string \<Rightarrow> scopeValue" where
  "Scope_get sc identifier = (case bindings sc identifier of None \<Rightarrow> Undefined | Some v \<Rightarrow> v)"

definition Scope_set :: "nat \<Rightarrow> string \<Rightarrow> scopeValue \<Rightarrow> generator \<Rightarrow> generator" where
  "Scope_set a identifier v g =
     g\<lparr>scopes := (scopes g)[a := (scopes g ! a)\<lparr>bindings := (bindings (scopes g ! a))(identifier \<mapsto> v)\<rparr>]\<rparr>"

definition newScope :: "string option \<Rightarrow> generator \<Rightarrow> nat \<times> generator" where
  "newScope name g =
     (length (scopes g), g\<lparr>scopes := scopes g @ [\<lparr>scopeName = name, bindings = Map.empty\<rparr>]\<rparr>)"

definition pushScope :: "string option \<Rightarrow> generator \<Rightarrow> nat \<times> generator" where
  "pushScope name g =
     (case newScope name g of (a, g1) \<Rightarrow> (a, g1\<lparr>scopeStack := a # scopeStack g1\<rparr>))"

definition popScope :: "generator \<Rightarrow> generator" where
  "popScope g = g\<lparr>scopeStack := tl (scopeStack g)\<rparr>"

fun resolve :: "scope list \<Rightarrow> nat list \<Rightarrow> string \<Rightarrow> scopeValue option" where
  "resolve store [] identifier = None"
| "resolve store (a # as) identifier =
     (case bindings (store ! a) identifier of
        Some v \<Rightarrow> Some v
      | None \<Rightarrow> resolve store as identifier)"

definition SymbolTable_get :: "string \<Rightarrow> generator \<Rightarrow> failure + scopeValue" where
  "SymbolTable_get identifier g =
     (case resolve (scopes g) (scopeStack g) identifier of
        Some v \<Rightarrow> Inr v
      | None \<Rightarrow> Inl (UnresolvedName identifier))"

subsection \<open>mangle.ts\<close>

text \<open>
  \<open>mangleFunctionDeclaration\<close>, given the text of the declaration's name. The test
  \<open>parentScope.name ? ... : ""\<close> is JavaScript truthiness: an absent name and the empty
  name both give no prefix.
\<close>

definition mangleFunctionDeclaration :: "string \<Rightarrow> scope \<Rightarrow> string" where
  "mangleFunctionDeclaration declarationName parentScope =
     (let scopePrefix =
        (case scopeName parentScope of
           None \<Rightarrow> ''''
         | Some n \<Rightarrow> if n = '''' then '''' else n @ ''__'')
      in scopePrefix @ declarationName)"

section \<open>The IR builder\<close>

text \<open>
  The operations of \<open>llvm.IRBuilder\<close>, \<open>llvm.BasicBlock\<close> and \<open>llvm.Function\<close> that the
  generator calls. The generator only ever positions a builder at the end of a block, so
  an inserted instruction becomes the last one of the insertion block; with no insertion
  block the instruction is created and inserted nowhere. The bindings throw a
  \<open>TypeError\<close> when an argument that must be an \<open>llvm.Value\<close> is not one. A function,
  a block and a stack slot keep the name they are created with: the suffix LLVM adds to a
  name that is taken already is left out, and so is the global that
  \<open>createGlobalStringPtr\<close> adds to the module.
\<close>

definition getBlock :: "generator \<Rightarrow> blockRef \<Rightarrow> basicBlock" where
  "getBlock g r = basicBlocks (moduleFunctions g ! fst r) ! snd r"

text \<open>A block reference that names a block of the module.\<close>

definition validBlock :: "generator \<Rightarrow> blockRef \<Rightarrow> bool" where
  "validBlock g r =
     (fst r < length (moduleFunctions g) \<and> snd r < length (basicBlocks (moduleFunctions g ! fst r)))"

definition getTerminator :: "basicBlock \<Rightarrow> (nat \<times> instruction) option" where
  "getTerminator b =
     (if instructions b = [] then None
      else if isTerminator (snd (last (instructions b))) then Some (last (instructions b))
      else None)"

definition setInsertionPoint :: "blockRef \<Rightarrow> generator \<Rightarrow> generator" where
  "setInsertionPoint r g = g\<lparr>insertBlock := Some r\<rparr>"

definition appendInstructions ::
  "blockRef \<Rightarrow> (nat \<times> instruction) list \<Rightarrow> llvmFunction list \<Rightarrow> llvmFunction list" where
  "appendInstructions r xs fs =
     fs[fst r := (fs ! fst r)\<lparr>basicBlocks :=
        (basicBlocks (fs ! fst r))[snd r :=
           (basicBlocks (fs ! fst r) ! snd r)\<lparr>instructions :=
              instructions (basicBlocks (fs ! fst r) ! snd r) @ xs\<rparr>]\<rparr>]"

definition insertInstruction :: "instruction \<Rightarrow> generator \<Rightarrow> nat \<times> generator" where
  "insertInstruction i g =
     (nextId g,
      g\<lparr>moduleFunctions :=
          (case insertBlock g of
             None \<Rightarrow> moduleFunctions g
           | Some r \<Rightarrow> appendInstructions r [(nextId g, i)] (moduleFunctions g)),
        nextId := Suc (nextId g)\<rparr>)"

definition createRetVoid :: "generator \<Rightarrow> generator" where
  "createRetVoid g = snd (insertInstruction RetVoid g)"

definition createRet :: "scopeValue \<Rightarrow> generator \<Rightarrow> failure + generator" where
  "createRet v g =
     (case v of
        Value x \<Rightarrow> Inr (snd (insertInstruction (Ret x) g))
      | _ \<Rightarrow> Inl (TypeError ''createRet''))"

definition createBr :: "blockRef \<Rightarrow> generator \<Rightarrow> generator" where
  "createBr target g = snd (insertInstruction (Br target) g)"

definition createCondBr :: "scopeValue \<Rightarrow> blockRef \<Rightarrow> blockRef \<Rightarrow> generator \<Rightarrow> failure + generator" where
  "createCondBr condition thenBlock elseBlock g =
     (case condition of
        Value c \<Rightarrow> Inr (snd (insertInstruction (CondBr c thenBlock elseBlock) g))
      | _ \<Rightarrow> Inl (TypeError ''createCondBr''))"

definition createLoad :: "llvmValue \<Rightarrow> generator \<Rightarrow> scopeValue \<times> generator" where
  "createLoad ptr g =
     (case insertInstruction (Load ptr) g of (i, g1) \<Rightarrow> (Value (LoadInst i), g1))"

definition createStore :: "scopeValue \<Rightarrow> scopeValue \<Rightarrow> generator \<Rightarrow> failure + scopeValue \<times> generator" where
  "createStore v ptr g =
     (case (v, ptr) of
        (Value x, Value p) \<Rightarrow>
          (case insertInstruction (Store x p) g of (i, g1) \<Rightarrow> Inr (Value (StoreInst i), g1))
      | _ \<Rightarrow> Inl (TypeError ''createStore''))"

definition createFAdd :: "scopeValue \<Rightarrow> scopeValue \<Rightarrow> generator \<Rightarrow> failure + scopeValue \<times> generator" where
  "createFAdd lhs rhs g =
     (case (lhs, rhs) of
        (Value x, Value y) \<Rightarrow>
          (case insertInstruction (FAdd x y) g of (i, g1) \<Rightarrow> Inr (Value (FAddInst i), g1))
      | _ \<Rightarrow> Inl (TypeError ''createFAdd''))"

fun toValues :: "scopeValue list \<Rightarrow> llvmValue list option" where
  "toValues [] = Some []"
| "toValues (Value x # vs) = (case toValues vs of None \<Rightarrow> None | Some xs \<Rightarrow> Some (x # xs))"
| "toValues (v # vs) = None"

definition createCall :: "scopeValue \<Rightarrow> scopeValue list \<Rightarrow> generator \<Rightarrow> failure + scopeValue \<times> generator" where
  "createCall callee args g =
     (case (callee, toValues args) of
        (Value f, Some xs) \<Rightarrow>
          (case insertInstruction (Call f xs) g of (i, g1) \<Rightarrow> Inr (Value (CallInst i), g1))
      | _ \<Rightarrow> Inl (TypeError ''createCall''))"

text \<open>
  \<open>new llvm.IRBuilder(block).createAlloca(type, undefined, name)\<close>: a second builder,
  positioned at the end of \<open>block\<close>, so the stack slot becomes the last instruction of
  that block whatever the block holds already.
\<close>

definition createAllocaAt :: "blockRef \<Rightarrow> llvmType \<Rightarrow> string \<Rightarrow> generator \<Rightarrow> llvmValue \<times> generator" where
  "createAllocaAt r t name g =
     (AllocaInst (nextId g),
      g\<lparr>moduleFunctions := appendInstructions r [(nextId g, Alloca t)] (moduleFunctions g),
        nextId := Suc (nextId g),
        valueNames := (valueNames g)(nextId g \<mapsto> name)\<rparr>)"

definition BasicBlock_create :: "string \<Rightarrow> nat \<Rightarrow> generator \<Rightarrow> blockRef \<times> generator" where
  "BasicBlock_create name f g =
     ((f, length (basicBlocks (moduleFunctions g ! f))),
      g\<lparr>moduleFunctions := (moduleFunctions g)[f := (moduleFunctions g ! f)\<lparr>basicBlocks :=
          basicBlocks (moduleFunctions g ! f) @ [\<lparr>blockName = name, instructions = []\<rparr>]\<rparr>]\<rparr>)"

definition Function_create ::
  "llvmType \<Rightarrow> llvmType list \<Rightarrow> linkageTypes \<Rightarrow> string \<Rightarrow> generator \<Rightarrow> nat \<times> generator" where
  "Function_create ret params link name g =
     (length (moduleFunctions g),
      g\<lparr>moduleFunctions := moduleFunctions g @
          [\<lparr>functionName = name, returnType = ret, parameterTypes = params, linkage = link,
            argumentNames = replicate (length params) [], basicBlocks = []\<rparr>]\<rparr>)"

text \<open>
  \<open>value.hasName()\<close> and \<open>value.name = ...\<close>. A constant other than a function carries no
  name and cannot be given one.
\<close>

fun getName :: "generator \<Rightarrow> llvmValue \<Rightarrow> string" where
  "getName g (Function f) = functionName (moduleFunctions g ! f)"
| "getName g (Argument f i) = argumentNames (moduleFunctions g ! f) ! i"
| "getName g (AllocaInst i) = (case valueNames g i of None \<Rightarrow> [] | Some n \<Rightarrow> n)"
| "getName g (LoadInst i) = (case valueNames g i of None \<Rightarrow> [] | Some n \<Rightarrow> n)"
| "getName g (StoreInst i) = (case valueNames g i of None \<Rightarrow> [] | Some n \<Rightarrow> n)"
| "getName g (FAddInst i) = (case valueNames g i of None \<Rightarrow> [] | Some n \<Rightarrow> n)"
| "getName g (CallInst i) = (case valueNames g i of None \<Rightarrow> [] | Some n \<Rightarrow> n)"
| "getName g v = []"

definition hasName :: "generator \<Rightarrow> llvmValue \<Rightarrow> bool" where
  "hasName g v = (getName g v \<noteq> [])"

definition setArgumentName :: "nat \<Rightarrow> nat \<Rightarrow> string \<Rightarrow> generator \<Rightarrow> generator" where
  "setArgumentName f i name g =
     g\<lparr>moduleFunctions := (moduleFunctions g)[f := (moduleFunctions g ! f)\<lparr>argumentNames :=
          (argumentNames (moduleFunctions g ! f))[i := name]\<rparr>]\<rparr>"

fun setName :: "llvmValue \<Rightarrow> string \<Rightarrow> generator \<Rightarrow> generator" where
  "setName (Function f) name g =
     g\<lparr>moduleFunctions := (moduleFunctions g)[f := (moduleFunctions g ! f)\<lparr>functionName := name\<rparr>]\<rparr>"
| "setName (Argument f i) name g = setArgumentName f i name g"
| "setName (AllocaInst i) name g = g\<lparr>valueNames := (valueNames g)(i \<mapsto> name)\<rparr>"
| "setName (LoadInst i) name g = g\<lparr>valueNames := (valueNames g)(i \<mapsto> name)\<rparr>"
| "setName (StoreInst i) name g = g\<lparr>valueNames := (valueNames g)(i \<mapsto> name)\<rparr>"
| "setName (FAddInst i) name g = g\<lparr>valueNames := (valueNames g)(i \<mapsto> name)\<rparr>"
| "setName (CallInst i) name g = g\<lparr>valueNames := (valueNames g)(i \<mapsto> name)\<rparr>"
| "setName v name g = g"

text \<open>
  \<open>llvm.verifyFunction\<close> and \<open>llvm.verifyModule\<close>, as far as the block structure goes: a
  block is accepted when it is not empty, ends in a terminator and holds no terminator
  before its last instruction. A function that is refused is a fatal
  \<open>VerificationFailure\<close>.
\<close>

definition wellFormedBlock :: "basicBlock \<Rightarrow> bool" where
  "wellFormedBlock b =
     (instructions b \<noteq> [] \<and> isTerminator (snd (last (instructions b))) \<and>
      \<not> list_ex (\<lambda>x. isTerminator (snd x)) (butlast (instructions b)))"

definition wellFormedFunction :: "llvmFunction \<Rightarrow> bool" where
  "wellFormedFunction f = list_all wellFormedBlock (basicBlocks f)"

definition verifyFunction :: "nat \<Rightarrow> generator \<Rightarrow> failure + generator" where
  "verifyFunction f g =
     (if wellFormedFunction (moduleFunctions g ! f)
      then Inr (g\<lparr>verifiedFunctions := verifiedFunctions g @ [f]\<rparr>)
      else Inl (VerificationFailure (functionName (moduleFunctions g ! f))))"

definition verifyModule :: "generator \<Rightarrow> failure + generator" where
  "verifyModule g =
     (if list_all wellFormedFunction (moduleFunctions g) then Inr g
      else Inl (VerificationFailure ''main''))"

section \<open>The source tree\<close>

text \<open>
  The TypeScript nodes the generator reads. A kind the generator has no case for keeps
  the label \<open>ts.SyntaxKind[kind]\<close> that the diagnostics print. For the kind of a numeric
  literal that label is \<open>FirstLiteralToken\<close>: the enumeration gives the kind both names,
  and its reverse mapping keeps the one assigned last. Where the source asks the
  type checker and \<open>getLLVMType\<close> (types.ts, not among the sources) for a type, the node
  carries the resulting IR type; where it asks \<open>isConst\<close> (tsc-utils.ts, not among the
  sources), the declaration carries the answer. \<open>declaration.name!.text\<close> of a function
  declaration is its name.
\<close>

datatype operatorToken = EqualsToken | PlusToken | OtherToken string

datatype expression =
    BinaryExpression expression operatorToken expression
  | CallExpression expression "expression list"
  | PropertyAccessExpression expression string
  | Identifier string
  | TrueKeyword
  | FalseKeyword
  | StringLiteral string
  | NumericLiteral string
  | OtherExpression string

record variableDeclaration =
  declarationName :: string
  initializer :: "expression option"
  isConst :: bool
  declarationType :: llvmType

datatype node =
    FunctionDeclaration string "(string \<times> llvmType) list" llvmType "node list option"
  | ModuleDeclaration string "node list option"
  | Block "node list"
  | ExpressionStatement expression
  | IfStatement expression node "node option"
  | ReturnStatement "expression option"
  | VariableStatement "variableDeclaration list"
  | EndOfFileToken
  | OtherNode string

section \<open>Lowering expressions\<close>

definition currentFunction :: "generator \<Rightarrow> failure + nat" where
  "currentFunction g =
     (case insertBlock g of
        None \<Rightarrow> Inl (TypeError ''getInsertBlock'')
      | Some r \<Rightarrow> Inr (fst r))"

definition createLoadIfAlloca :: "scopeValue \<Rightarrow> generator \<Rightarrow> scopeValue \<times> generator" where
  "createLoadIfAlloca v g =
     (case v of
        Value (AllocaInst i) \<Rightarrow> createLoad (AllocaInst i) g
      | _ \<Rightarrow> (v, g))"

definition createEntryBlockAlloca :: "llvmType \<Rightarrow> string \<Rightarrow> generator \<Rightarrow> failure + llvmValue \<times> generator" where
  "createEntryBlockAlloca t name g =
     (case currentFunction g of
        Inl e \<Rightarrow> Inl e
      | Inr f \<Rightarrow>
          if basicBlocks (moduleFunctions g ! f) = [] then Inl (TypeError ''getEntryBlock'')
          else Inr (createAllocaAt (f, 0) t name g))"

definition emitIdentifier :: "string \<Rightarrow> generator \<Rightarrow> failure + scopeValue \<times> generator" where
  "emitIdentifier text g =
     (case SymbolTable_get text g of Inl e \<Rightarrow> Inl e | Inr v \<Rightarrow> Inr (v, g))"

definition emitBooleanLiteral :: "expression \<Rightarrow> generator \<Rightarrow> failure + scopeValue \<times> generator" where
  "emitBooleanLiteral expr g =
     (if expr = TrueKeyword then Inr (Value ConstantTrue, g) else Inr (Value ConstantFalse, g))"

definition emitStringLiteral :: "string \<Rightarrow> generator \<Rightarrow> failure + scopeValue \<times> generator" where
  "emitStringLiteral text g =
     (let ptr = GlobalStringPtr text;
          len = ConstantInt (length text)
      in Inr (Value (ConstantStruct StringTy [ptr, len]), g))"

definition isIdentifier :: "expression \<Rightarrow> bool" where
  "isIdentifier e = (case e of Identifier t \<Rightarrow> True | _ \<Rightarrow> False)"

definition emitPropertyAccessExpression ::
  "expression \<Rightarrow> string \<Rightarrow> generator \<Rightarrow> failure + scopeValue \<times> generator" where
  "emitPropertyAccessExpression left propertyName g =
     (case left of
        Identifier text \<Rightarrow>
          (case SymbolTable_get text g of
             Inl e \<Rightarrow> Inl e
           | Inr (ScopeRef a) \<Rightarrow> Inr (Scope_get (scopes g ! a) propertyName, g)
           | Inr _ \<Rightarrow> error ''Object property access not implemented yet'')
      | _ \<Rightarrow> error ''Object property access not implemented yet'')"

text \<open>The quotes that the diagnostics put around the label of a syntax kind.\<close>

definition quoted :: "string \<Rightarrow> string" where
  "quoted s = CHR 0x27 # s @ [CHR 0x27]"

text \<open>
  \<open>emitExpression\<close> with \<open>emitBinaryExpression\<close> and \<open>emitCallExpression\<close>, which call it
  back; \<open>emitExpressions\<close> is the \<open>map\<close> over the arguments of a call, left to right.
\<close>

function emitExpression :: "expression \<Rightarrow> generator \<Rightarrow> failure + scopeValue \<times> generator"
  and emitBinaryExpression ::
    "expression \<Rightarrow> operatorToken \<Rightarrow> expression \<Rightarrow> generator \<Rightarrow> failure + scopeValue \<times> generator"
  and emitCallExpression ::
    "expression \<Rightarrow> expression list \<Rightarrow> generator \<Rightarrow> failure + scopeValue \<times> generator"
  and emitExpressions ::
    "expression list \<Rightarrow> generator \<Rightarrow> failure + scopeValue list \<times> generator"
where
  "emitExpression (BinaryExpression l opr r) g = emitBinaryExpression l opr r g"
| "emitExpression (CallExpression callee args) g = emitCallExpression callee args g"
| "emitExpression (PropertyAccessExpression l name) g = emitPropertyAccessExpression l name g"
| "emitExpression (Identifier text) g = emitIdentifier text g"
| "emitExpression TrueKeyword g = emitBooleanLiteral TrueKeyword g"
| "emitExpression FalseKeyword g = emitBooleanLiteral FalseKeyword g"
| "emitExpression (StringLiteral text) g = emitStringLiteral text g"
| "emitExpression (NumericLiteral text) g = error (''Unhandled ts.Expression '' @ quoted ''FirstLiteralToken'')"
| "emitExpression (OtherExpression kind) g = error (''Unhandled ts.Expression '' @ quoted kind)"
| "emitBinaryExpression l opr r g =
     (case emitExpression l g of
        Inl e \<Rightarrow> Inl e
      | Inr (left, g1) \<Rightarrow>
          (case emitExpression r g1 of
             Inl e \<Rightarrow> Inl e
           | Inr (right, g2) \<Rightarrow>
               (case opr of
                  EqualsToken \<Rightarrow>
                    (case createLoadIfAlloca right g2 of (v, g3) \<Rightarrow> createStore v left g3)
                | PlusToken \<Rightarrow>
                    (case createLoadIfAlloca left g2 of (x, g3) \<Rightarrow>
                       (case createLoadIfAlloca right g3 of (y, g4) \<Rightarrow> createFAdd x y g4))
                | OtherToken kind \<Rightarrow>
                    error (''Unhandled ts.BinaryExpression operator '' @ quoted kind))))"
| "emitCallExpression callee args g =
     (case emitExpression callee g of
        Inl e \<Rightarrow> Inl e
      | Inr (f, g1) \<Rightarrow>
          (case emitExpressions args g1 of
             Inl e \<Rightarrow> Inl e
           | Inr (vs, g2) \<Rightarrow> createCall f vs g2))"
| "emitExpressions [] g = Inr ([], g)"
| "emitExpressions (a # as) g =
     (case emitExpression a g of
        Inl e \<Rightarrow> Inl e
      | Inr (v, g1) \<Rightarrow>
          (case emitExpressions as g1 of
             Inl e \<Rightarrow> Inl e
           | Inr (vs, g2) \<Rightarrow> Inr (v # vs, g2)))"
  by pat_completeness auto
termination
  by (relation "measure (\<lambda>x. case x of
        Inl (Inl (e, g)) \<Rightarrow> 2 * size e
      | Inl (Inr (l, opr, r, g)) \<Rightarrow> 2 * (size l + size r) + 1
      | Inr (Inl (c, args, g)) \<Rightarrow> 2 * (size c + size_list size args) + 1
      | Inr (Inr (args, g)) \<Rightarrow> 2 * size_list size args)") auto

section \<open>Lowering statements and declarations\<close>

definition emitExpressionStatement :: "expression \<Rightarrow> generator \<Rightarrow> failure + generator" where
  "emitExpressionStatement expr g =
     (case emitExpression expr g of Inl e \<Rightarrow> Inl e | Inr (v, g1) \<Rightarrow> Inr g1)"

definition emitReturnStatement :: "expression option \<Rightarrow> generator \<Rightarrow> failure + generator" where
  "emitReturnStatement expr g =
     (case expr of
        Some e \<Rightarrow>
          (case emitExpression e g of
             Inl err \<Rightarrow> Inl err
           | Inr (v, g1) \<Rightarrow> (case createLoadIfAlloca v g1 of (x, g2) \<Rightarrow> createRet x g2))
      | None \<Rightarrow> Inr (createRetVoid g))"

text \<open>
  One round of the loop of \<open>emitVariableStatement\<close> over the declarations of the
  statement. A declaration without initializer makes \<open>emitExpression\<close> read the kind of
  \<open>undefined\<close>; \<open>hasName\<close> exists on an \<open>llvm.Value\<close> only.
\<close>

definition emitVariableDeclaration :: "variableDeclaration \<Rightarrow> nat \<Rightarrow> generator \<Rightarrow> failure + generator" where
  "emitVariableDeclaration declaration parentScope g =
     (let name = declarationName declaration in
      case initializer declaration of
        None \<Rightarrow> Inl (TypeError ''expression.kind'')
      | Some e \<Rightarrow>
          (case emitExpression e g of
             Inl err \<Rightarrow> Inl err
           | Inr (v, g1) \<Rightarrow>
               (case createLoadIfAlloca v g1 of (init, g2) \<Rightarrow>
                  if isConst declaration then
                    (case init of
                       Value x \<Rightarrow>
                         Inr (Scope_set parentScope name init
                                (if \<not> hasName g2 x then setName x name g2 else g2))
                     | _ \<Rightarrow> Inl (TypeError ''hasName''))
                  else
                    (case createEntryBlockAlloca (declarationType declaration) name g2 of
                       Inl err \<Rightarrow> Inl err
                     | Inr (alloca, g3) \<Rightarrow>
                         (case createStore init (Value alloca) g3 of
                            Inl err \<Rightarrow> Inl err
                          | Inr (st, g4) \<Rightarrow> Inr (Scope_set parentScope name (Value alloca) g4))))))"

fun emitVariableStatement :: "variableDeclaration list \<Rightarrow> nat \<Rightarrow> generator \<Rightarrow> failure + generator" where
  "emitVariableStatement [] parentScope g = Inr g"
| "emitVariableStatement (d # ds) parentScope g =
     (case emitVariableDeclaration d parentScope g of
        Inl err \<Rightarrow> Inl err
      | Inr g1 \<Rightarrow> emitVariableStatement ds parentScope g1)"

text \<open>
  The loop of \<open>emitFunctionDeclaration\<close> over the parameters zipped with the arguments
  of the new function: the argument takes the parameter's name and is bound in the
  body's scope.
\<close>

fun bindParameters :: "(string \<times> llvmType) list \<Rightarrow> nat \<Rightarrow> nat \<Rightarrow> nat \<Rightarrow> generator \<Rightarrow> generator" where
  "bindParameters [] func i bodyScope g = g"
| "bindParameters (p # ps) func i bodyScope g =
     bindParameters ps func (Suc i) bodyScope
       (Scope_set bodyScope (fst p) (Value (Argument func i)) (setName (Argument func i) (fst p) g))"

text \<open>
  \<open>emitNode\<close> and the functions it dispatches to and that call it back. \<open>emitNodes\<close> is
  \<open>forEachChild\<close> with \<open>emitNode\<close> as the callback (and the loop of \<open>emitBlock\<close>);
  \<open>emitFunctionBody\<close> is the callback that \<open>emitFunctionDeclaration\<close> hands to
  \<open>withScope\<close>. A scope argument is the address of the scope object. \<open>withScope\<close> is
  written out as \<open>pushScope\<close>, the body, \<open>popScope\<close>; after a failure of the body
  nothing is popped, and nothing is left to see it. \<open>emitIfStatement\<close> reads
  \<open>this.currentFunction\<close> once for its three blocks: creating a block does not move the
  builder.
\<close>

function emitNode :: "node \<Rightarrow> nat \<Rightarrow> generator \<Rightarrow> failure + generator"
  and emitNodes :: "node list \<Rightarrow> nat \<Rightarrow> generator \<Rightarrow> failure + generator"
  and emitFunctionDeclaration ::
    "string \<Rightarrow> (string \<times> llvmType) list \<Rightarrow> llvmType \<Rightarrow> node list option \<Rightarrow> nat \<Rightarrow> generator
      \<Rightarrow> failure + generator"
  and emitFunctionBody ::
    "(string \<times> llvmType) list \<Rightarrow> llvmType \<Rightarrow> node list \<Rightarrow> nat \<Rightarrow> nat \<Rightarrow> generator
      \<Rightarrow> failure + generator"
  and emitModuleDeclaration :: "string \<Rightarrow> node list option \<Rightarrow> nat \<Rightarrow> generator \<Rightarrow> failure + generator"
  and emitBlock :: "node list \<Rightarrow> generator \<Rightarrow> failure + generator"
  and emitFoo :: "node option \<Rightarrow> blockRef \<Rightarrow> blockRef \<Rightarrow> nat \<Rightarrow> generator \<Rightarrow> failure + generator"
  and emitIfStatement :: "expression \<Rightarrow> node \<Rightarrow> node option \<Rightarrow> nat \<Rightarrow> generator \<Rightarrow> failure + generator"
where
  "emitNode (FunctionDeclaration name params ret body) parentScope g =
     emitFunctionDeclaration name params ret body parentScope g"
| "emitNode (ModuleDeclaration name body) parentScope g =
     emitModuleDeclaration name body parentScope g"
| "emitNode (Block statements) parentScope g = emitBlock statements g"
| "emitNode (ExpressionStatement expr) parentScope g = emitExpressionStatement expr g"
| "emitNode (IfStatement expr thenStatement elseStatement) parentScope g =
     emitIfStatement expr thenStatement elseStatement parentScope g"
| "emitNode (ReturnStatement expr) parentScope g = emitReturnStatement expr g"
| "emitNode (VariableStatement declarations) parentScope g =
     emitVariableStatement declarations parentScope g"
| "emitNode EndOfFileToken parentScope g = Inr g"
| "emitNode (OtherNode kind) parentScope g = Inr (warn (''Unhandled ts.Node '' @ quoted kind) g)"
| "emitNodes [] sc g = Inr g"
| "emitNodes (n # ns) sc g =
     (case emitNode n sc g of
        Inl e \<Rightarrow> Inl e
      | Inr g1 \<Rightarrow> emitNodes ns sc g1)"
| "emitFunctionDeclaration name params ret body parentScope g =
     (let qualifiedName = mangleFunctionDeclaration name (scopes g ! parentScope) in
      case Function_create ret (map snd params) ExternalLinkage qualifiedName g of (func, g1) \<Rightarrow>
        (case (case body of
                 None \<Rightarrow> Inr g1
               | Some statements \<Rightarrow>
                   (case pushScope (Some qualifiedName) g1 of (bodyScope, g2) \<Rightarrow>
                      (case emitFunctionBody params ret statements func bodyScope g2 of
                         Inl e \<Rightarrow> Inl e
                       | Inr g3 \<Rightarrow> Inr (popScope g3)))) of
           Inl e \<Rightarrow> Inl e
         | Inr g4 \<Rightarrow>
             (case verifyFunction func g4 of
                Inl e \<Rightarrow> Inl e
              | Inr g5 \<Rightarrow> Inr (Scope_set parentScope name (Value (Function func)) g5))))"
| "emitFunctionBody params ret statements func bodyScope g =
     (case BasicBlock_create ''entry'' func (bindParameters params func 0 bodyScope g) of
        (entryBlock, g1) \<Rightarrow>
          (case emitNodes statements bodyScope (setInsertionPoint entryBlock g1) of
             Inl e \<Rightarrow> Inl e
           | Inr g2 \<Rightarrow>
               (case insertBlock g2 of
                  None \<Rightarrow> Inl (TypeError ''getInsertBlock'')
                | Some r \<Rightarrow>
                    if getTerminator (getBlock g2 r) = None then
                      (if isVoidTy ret then Inr (createRetVoid g2) else Inr g2)
                    else Inr g2)))"
| "emitModuleDeclaration name body parentScope g =
     (case newScope (Some name) g of (sc, g1) \<Rightarrow>
        (case body of
           None \<Rightarrow> Inl (TypeError ''forEachChild'')
         | Some members \<Rightarrow>
             (case emitNodes members sc g1 of
                Inl e \<Rightarrow> Inl e
              | Inr g2 \<Rightarrow> Inr (Scope_set parentScope name (ScopeRef sc) g2))))"
| "emitBlock statements g =
     (case pushScope None g of (sc, g1) \<Rightarrow>
        (case emitNodes statements sc g1 of
           Inl e \<Rightarrow> Inl e
         | Inr g2 \<Rightarrow> Inr (popScope g2)))"
| "emitFoo block destination continuation parentScope g =
     (case (case block of
              None \<Rightarrow> Inr (setInsertionPoint destination g)
            | Some n \<Rightarrow> emitNode n parentScope (setInsertionPoint destination g)) of
        Inl e \<Rightarrow> Inl e
      | Inr g1 \<Rightarrow>
          (case insertBlock g1 of
             None \<Rightarrow> Inl (TypeError ''getInsertBlock'')
           | Some r \<Rightarrow>
               if getTerminator (getBlock g1 r) = None then Inr (createBr continuation g1)
               else Inr g1))"
| "emitIfStatement expr thenStatement elseStatement parentScope g =
     (case emitExpression expr g of
        Inl e \<Rightarrow> Inl e
      | Inr (condition, g1) \<Rightarrow>
          (case currentFunction g1 of
             Inl e \<Rightarrow> Inl e
           | Inr f \<Rightarrow>
               (case BasicBlock_create ''then'' f g1 of (thenBlock, g2) \<Rightarrow>
               (case BasicBlock_create ''else'' f g2 of (elseBlock, g3) \<Rightarrow>
               (case BasicBlock_create ''endif'' f g3 of (endBlock, g4) \<Rightarrow>
                  (case createCondBr condition thenBlock elseBlock g4 of
                     Inl e \<Rightarrow> Inl e
                   | Inr g5 \<Rightarrow>
                       (case emitFoo (Some thenStatement) thenBlock endBlock parentScope g5 of
                          Inl e \<Rightarrow> Inl e
                        | Inr g6 \<Rightarrow>
                            (case emitFoo elseStatement elseBlock endBlock parentScope g6 of
                               Inl e \<Rightarrow> Inl e
                             | Inr g7 \<Rightarrow> Inr (setInsertionPoint endBlock g7)))))))))"
  by pat_completeness auto
termination
  by (relation "measure (\<lambda>x. case x of
        Inl (Inl (Inl (n, sc, g))) \<Rightarrow> 3 * size n
      | Inl (Inl (Inr (ns, sc, g))) \<Rightarrow> 3 * size_list size ns
      | Inl (Inr (Inl (name, params, ret, body, sc, g))) \<Rightarrow> 3 * size_option (size_list size) body + 2
      | Inl (Inr (Inr (params, ret, ns, func, sc, g))) \<Rightarrow> 3 * size_list size ns + 1
      | Inr (Inl (Inl (name, body, sc, g))) \<Rightarrow> 3 * size_option (size_list size) body + 2
      | Inr (Inl (Inr (ns, g))) \<Rightarrow> 3 * size_list size ns + 1
      | Inr (Inr (Inl (block, d, c, sc, g))) \<Rightarrow> 3 * size_option size block - 2
      | Inr (Inr (Inr (e, t, el, sc, g))) \<Rightarrow> 3 * (size t + size_option size el) + 2)") auto

section \<open>The entry point\<close>

text \<open>
  \<open>emitSourceFile\<close> lowers the children of a source file against the global scope;
  \<open>emitLLVM\<close> does so for every source file of the program with one generator and then
  verifies the module.
\<close>

definition emitSourceFile :: "node list \<Rightarrow> generator \<Rightarrow> failure + generator" where
  "emitSourceFile sourceFile g = emitNodes sourceFile globalScope g"

fun emitSourceFiles :: "node list list \<Rightarrow> generator \<Rightarrow> failure + generator" where
  "emitSourceFiles [] g = Inr g"
| "emitSourceFiles (f # fs) g =
     (case emitSourceFile f g of
        Inl e \<Rightarrow> Inl e
      | Inr g1 \<Rightarrow> emitSourceFiles fs g1)"

definition emitLLVM :: "node list list \<Rightarrow> failure + generator" where
  "emitLLVM program =
     (case emitSourceFiles program newGenerator of
        Inl e \<Rightarrow> Inl e
      | Inr g \<Rightarrow> verifyModule g)"

section \<open>Vocabulary of the proofs\<close>

text \<open>
  Lowering an expression is straight-line: \<open>straightLine g g'\<close> says that \<open>g'\<close> is \<open>g\<close> with
  some instructions, none of them a terminator, added at the end of the insertion block
  (and nowhere when there is none), and with the same insertion block, scopes, warnings
  and verified functions.
\<close>

definition straightLine :: "generator \<Rightarrow> generator \<Rightarrow> bool" where
  "straightLine g g' =
     (\<exists>xs. \<not> list_ex (\<lambda>x. isTerminator (snd x)) xs \<and>
        moduleFunctions g' =
          (case insertBlock g of
             None \<Rightarrow> moduleFunctions g
           | Some r \<Rightarrow> appendInstructions r xs (moduleFunctions g)) \<and>
        insertBlock g' = insertBlock g \<and> scopes g' = scopes g \<and>
        scopeStack g' = scopeStack g \<and> warnings g' = warnings g \<and>
        verifiedFunctions g' = verifiedFunctions g)"

text \<open>
  States on which the theorems are tried. \<open>exampleBody\<close> is the generator as
  \<open>emitFunctionBody\<close> has it when it starts on the statements of
  \<open>function f(c: boolean): boolean\<close>, the first declaration of a program: the function
  is number 0, its scope is at address 1, the builder is at the end of the empty entry
  block. \<open>exampleBranch\<close> is the same with a second block as the insertion block.
  \<open>exampleSlots\<close> is \<open>exampleBody\<close> after \<open>let x = true; let y = false;\<close>.
  \<open>exampleModule\<close> is the generator after the source file
  \<open>namespace M { declare function g(): void } declare function k(): void\<close>.
\<close>

definition exampleBody :: generator where
  "exampleBody =
     setInsertionPoint (0, 0)
       (snd (BasicBlock_create ''entry'' 0
          (bindParameters [(''c'', Int1Ty)] 0 0 1
             (snd (pushScope (Some ''f'')
                (snd (Function_create Int1Ty [Int1Ty] ExternalLinkage ''f'' newGenerator)))))))"

definition exampleBranch :: generator where
  "exampleBranch = setInsertionPoint (0, 1) (snd (BasicBlock_create ''then'' 0 exampleBody))"

definition exampleSlots :: generator where
  "exampleSlots =
     (case emitVariableStatement
        [\<lparr>declarationName = ''x'', initializer = Some TrueKeyword, isConst = False,
          declarationType = Int1Ty\<rparr>,
         \<lparr>declarationName = ''y'', initializer = Some FalseKeyword, isConst = False,
          declarationType = Int1Ty\<rparr>] 1 exampleBody of
        Inl e \<Rightarrow> exampleBody
      | Inr g \<Rightarrow> g)"

definition exampleModule :: generator where
  "exampleModule =
     (case emitSourceFile
        [ModuleDeclaration ''M'' (Some [FunctionDeclaration ''g'' [] VoidTy None]),
         FunctionDeclaration ''k'' [] VoidTy None,
         EndOfFileToken] newGenerator of
        Inl e \<Rightarrow> newGenerator
      | Inr g \<Rightarrow> g)"

section \<open>Auxiliary facts\<close>

lemmas generator_defs =
  newGenerator_def globalScope_def Scope_get_def Scope_set_def newScope_def pushScope_def popScope_def
  SymbolTable_get_def mangleFunctionDeclaration_def getBlock_def getTerminator_def validBlock_def
  setInsertionPoint_def appendInstructions_def insertInstruction_def createRetVoid_def createRet_def
  createBr_def createCondBr_def createLoad_def createStore_def createFAdd_def createCall_def
  createAllocaAt_def BasicBlock_create_def Function_create_def hasName_def setArgumentName_def
  wellFormedBlock_def wellFormedFunction_def verifyFunction_def verifyModule_def
  currentFunction_def createLoadIfAlloca_def createEntryBlockAlloca_def emitIdentifier_def
  emitBooleanLiteral_def emitStringLiteral_def isIdentifier_def emitPropertyAccessExpression_def
  emitExpressionStatement_def emitReturnStatement_def emitVariableDeclaration_def
  emitSourceFile_def emitLLVM_def error_def warn_def quoted_def isVoidTy_def Let_def
  exampleBody_def exampleBranch_def exampleSlots_def exampleModule_def

lemma appendInstructions_Nil: "appendInstructions r [] fs = fs"
  by (simp add: appendInstructions_def list_update_beyond)

lemma appendInstructions_length: "length (appendInstructions r xs fs) = length fs"
  by (simp add: appendInstructions_def list_update_beyond)

lemma appendInstructions_append:
  "appendInstructions r ys (appendInstructions r xs fs) = appendInstructions r (xs @ ys) fs"
proof (cases "fst r < length fs")
  case False
  then show ?thesis by (simp add: appendInstructions_def list_update_beyond)
next
  case True
  show ?thesis
  proof (cases "snd r < length (basicBlocks (fs ! fst r))")
    case False
    with True show ?thesis by (simp add: appendInstructions_def list_update_beyond)
  next
    case inner: True
    with True show ?thesis by (simp add: appendInstructions_def list_update_beyond)
  qed
qed

lemma appendInstructions_blocks_length:
  "length (basicBlocks (appendInstructions r xs fs ! f)) = length (basicBlocks (fs ! f))"
  by (cases "f = fst r"; cases "fst r < length fs") (simp_all add: appendInstructions_def list_update_beyond)

lemma appendInstructions_blockName:
  "blockName (basicBlocks (appendInstructions r xs fs ! f) ! b) = blockName (basicBlocks (fs ! f) ! b)"
  by (cases "f = fst r"; cases "fst r < length fs"; cases "b = snd r";
      cases "snd r < length (basicBlocks (fs ! fst r))") (simp_all add: appendInstructions_def list_update_beyond)

lemma appendInstructions_instructions:
  "fst r < length fs \<Longrightarrow> snd r < length (basicBlocks (fs ! fst r)) \<Longrightarrow>
   instructions (basicBlocks (appendInstructions r xs fs ! f) ! b) =
     instructions (basicBlocks (fs ! f) ! b) @ (if (f, b) = r then xs else [])"
  by (cases r; cases "f = fst r"; cases "b = snd r") (auto simp add: appendInstructions_def)

lemma appendInstructions_other:
  "(f, b) \<noteq> r \<Longrightarrow>
   instructions (basicBlocks (appendInstructions r xs fs ! f) ! b) = instructions (basicBlocks (fs ! f) ! b)"
  by (cases r; cases "f = fst r"; cases "fst r < length fs"; cases "b = snd r";
      cases "snd r < length (basicBlocks (fs ! fst r))") (auto simp add: appendInstructions_def list_update_beyond)

lemma appendInstructions_functionName:
  "functionName (appendInstructions r xs fs ! f) = functionName (fs ! f)"
  by (cases "f = fst r"; cases "fst r < length fs") (simp_all add: appendInstructions_def list_update_beyond)

lemma straightLine_refl: "straightLine g g"
  unfolding straightLine_def
  by (rule exI [of _ "[]"]) (simp add: appendInstructions_Nil split: option.splits)

lemma straightLine_trans:
  assumes "straightLine g g1" and "straightLine g1 g2"
  shows "straightLine g g2"
proof -
  from assms(1) obtain xs where xs: "\<not> list_ex (\<lambda>x. isTerminator (snd x)) xs"
    "moduleFunctions g1 = (case insertBlock g of None \<Rightarrow> moduleFunctions g
       | Some r \<Rightarrow> appendInstructions r xs (moduleFunctions g))"
    and same1: "insertBlock g1 = insertBlock g" "scopes g1 = scopes g" "scopeStack g1 = scopeStack g"
      "warnings g1 = warnings g" "verifiedFunctions g1 = verifiedFunctions g"
    unfolding straightLine_def by blast
  from assms(2) obtain ys where ys: "\<not> list_ex (\<lambda>x. isTerminator (snd x)) ys"
    "moduleFunctions g2 = (case insertBlock g1 of None \<Rightarrow> moduleFunctions g1
       | Some r \<Rightarrow> appendInstructions r ys (moduleFunctions g1))"
    and same2: "insertBlock g2 = insertBlock g1" "scopes g2 = scopes g1" "scopeStack g2 = scopeStack g1"
      "warnings g2 = warnings g1" "verifiedFunctions g2 = verifiedFunctions g1"
    unfolding straightLine_def by blast
  have "\<not> list_ex (\<lambda>x. isTerminator (snd x)) (xs @ ys)"
    using xs(1) ys(1) by (auto simp add: list_ex_iff)
  moreover have "moduleFunctions g2 = (case insertBlock g of None \<Rightarrow> moduleFunctions g
       | Some r \<Rightarrow> appendInstructions r (xs @ ys) (moduleFunctions g))"
    using xs(2) ys(2) same1(1) by (simp add: appendInstructions_append split: option.splits)
  ultimately show ?thesis
    unfolding straightLine_def using same1 same2 by (intro exI [of _ "xs @ ys"]) simp
qed

lemma straightLine_insert:
  "insertInstruction i g = (n, g') \<Longrightarrow> \<not> isTerminator i \<Longrightarrow> straightLine g g'"
  unfolding straightLine_def
  by (rule exI [of _ "[(nextId g, i)]"]) (auto simp add: insertInstruction_def split: option.splits)

lemma straightLine_createLoadIfAlloca:
  "createLoadIfAlloca v g = (x, g') \<Longrightarrow> straightLine g g'"
  by (auto simp add: createLoadIfAlloca_def createLoad_def straightLine_refl
      split: scopeValue.splits llvmValue.splits prod.splits dest: straightLine_insert)

lemma straightLine_createStore:
  "createStore v p g = Inr (x, g') \<Longrightarrow> straightLine g g'"
  by (auto simp add: createStore_def split: scopeValue.splits prod.splits dest: straightLine_insert)

lemma straightLine_createFAdd:
  "createFAdd v p g = Inr (x, g') \<Longrightarrow> straightLine g g'"
  by (auto simp add: createFAdd_def split: scopeValue.splits prod.splits dest: straightLine_insert)

lemma straightLine_createCall:
  "createCall f vs g = Inr (x, g') \<Longrightarrow> straightLine g g'"
  by (auto simp add: createCall_def split: scopeValue.splits prod.splits option.splits
      dest: straightLine_insert)

lemma straightLine_emitExpression:
  "emitExpression e g = Inr (v, g') \<Longrightarrow> straightLine g g'"
  "emitBinaryExpression l opr r g = Inr (v, g') \<Longrightarrow> straightLine g g'"
  "emitCallExpression c args g = Inr (v, g') \<Longrightarrow> straightLine g g'"
  "emitExpressions es g = Inr (vs, g') \<Longrightarrow> straightLine g g'"
proof (induction e g and l opr r g and c args g and es g arbitrary: v g' and v g' and v g' and vs g'
    rule: emitExpression_emitBinaryExpression_emitCallExpression_emitExpressions.induct)
  case (1 l opr r g)
  then show ?case by simp
next
  case (2 callee args g)
  then show ?case by simp
next
  case (3 l name g)
  then show ?case
    by (auto simp add: emitPropertyAccessExpression_def error_def straightLine_refl
        split: expression.splits sum.splits scopeValue.splits)
next
  case (4 t g)
  then show ?case
    by (auto simp add: emitIdentifier_def straightLine_refl split: sum.splits)
next
  case (5 g)
  then show ?case by (auto simp add: emitBooleanLiteral_def straightLine_refl)
next
  case (6 g)
  then show ?case by (auto simp add: emitBooleanLiteral_def straightLine_refl)
next
  case (7 t g)
  then show ?case by (auto simp add: emitStringLiteral_def straightLine_refl)
next
  case (8 t g)
  then show ?case by (simp add: error_def)
next
  case (9 kind g)
  then show ?case by (simp add: error_def)
next
  case (10 l opr r g)
  from "10.prems" obtain left g1 right g2 where
    l: "emitExpression l g = Inr (left, g1)" and r: "emitExpression r g1 = Inr (right, g2)"
    by (auto split: sum.splits)
  have s1: "straightLine g g1" using "10.IH"(1) l by simp
  have s2: "straightLine g1 g2" using "10.IH"(2) [OF l refl r] by simp
  have s3: "straightLine g2 g'"
  proof (cases opr)
    case EqualsToken
    with "10.prems" l r obtain x g3 where
      a: "createLoadIfAlloca right g2 = (x, g3)" and b: "createStore x left g3 = Inr (v, g')"
      by (auto split: prod.splits)
    show ?thesis
      using straightLine_trans [OF straightLine_createLoadIfAlloca [OF a] straightLine_createStore [OF b]] .
  next
    case PlusToken
    with "10.prems" l r obtain x g3 y g4 where
      a: "createLoadIfAlloca left g2 = (x, g3)" and b: "createLoadIfAlloca right g3 = (y, g4)"
      and c: "createFAdd x y g4 = Inr (v, g')"
      by (auto split: prod.splits)
    show ?thesis
      using straightLine_trans [OF straightLine_createLoadIfAlloca [OF a]
          straightLine_trans [OF straightLine_createLoadIfAlloca [OF b] straightLine_createFAdd [OF c]]] .
  next
    case (OtherToken kind)
    with "10.prems" l r show ?thesis by (simp add: error_def)
  qed
  show ?case using straightLine_trans [OF s1 straightLine_trans [OF s2 s3]] .
next
  case (11 callee args g)
  from "11.prems" obtain f g1 xs g2 where
    c: "emitExpression callee g = Inr (f, g1)" and a: "emitExpressions args g1 = Inr (xs, g2)"
    and k: "createCall f xs g2 = Inr (v, g')"
    by (auto split: sum.splits)
  have s1: "straightLine g g1" using "11.IH"(1) c by simp
  have s2: "straightLine g1 g2" using "11.IH"(2) [OF c refl a] by simp
  show ?case
    using straightLine_trans [OF s1 straightLine_trans [OF s2 straightLine_createCall [OF k]]] .
next
  case (12 g)
  then show ?case by (simp add: straightLine_refl)
next
  case (13 a as g)
  from "13.prems" obtain x g1 xs where
    c: "emitExpression a g = Inr (x, g1)" and a: "emitExpressions as g1 = Inr (xs, g')"
    by (auto split: sum.splits)
  have s1: "straightLine g g1" using "13.IH"(1) c by simp
  have s2: "straightLine g1 g'" using "13.IH"(2) [OF c refl a] by simp
  show ?case using straightLine_trans [OF s1 s2] .
qed


lemma insertBlock_simps:
  "insertBlock (snd (insertInstruction i g)) = insertBlock g"
  "insertBlock (createRetVoid g) = insertBlock g"
  "insertBlock (createBr b g) = insertBlock g"
  "insertBlock (Scope_set a n v g) = insertBlock g"
  "insertBlock (setName x n g) = insertBlock g"
  "insertBlock (popScope g) = insertBlock g"
  "insertBlock (snd (pushScope nm g)) = insertBlock g"
  "insertBlock (snd (newScope nm g)) = insertBlock g"
  "insertBlock (snd (BasicBlock_create n f g)) = insertBlock g"
  "insertBlock (snd (Function_create ret ps l n g)) = insertBlock g"
  "insertBlock (warn m g) = insertBlock g"
  "insertBlock (snd (createAllocaAt r t n g)) = insertBlock g"
  "insertBlock (setInsertionPoint r g) = Some r"
  by (cases x; simp add: insertInstruction_def createRetVoid_def createBr_def Scope_set_def
      setArgumentName_def popScope_def pushScope_def newScope_def BasicBlock_create_def
      Function_create_def warn_def createAllocaAt_def setInsertionPoint_def)+

lemma insertBlock_bindParameters:
  "insertBlock (bindParameters ps f i sc g) = insertBlock g"
  by (induction ps f i sc g rule: bindParameters.induct)
    (simp_all add: insertBlock_simps setArgumentName_def)

lemma insertBlock_createRet: "createRet v g = Inr g' \<Longrightarrow> insertBlock g' = insertBlock g"
  by (auto simp add: createRet_def insertBlock_simps split: scopeValue.splits)

lemma insertBlock_createCondBr: "createCondBr c t e g = Inr g' \<Longrightarrow> insertBlock g' = insertBlock g"
  by (auto simp add: createCondBr_def insertBlock_simps split: scopeValue.splits)

lemma insertBlock_verifyFunction: "verifyFunction f g = Inr g' \<Longrightarrow> insertBlock g' = insertBlock g"
  by (auto simp add: verifyFunction_def split: if_splits)

lemma insertBlock_straightLine: "straightLine g g' \<Longrightarrow> insertBlock g' = insertBlock g"
  by (auto simp add: straightLine_def)

lemma insertBlock_emitVariableDeclaration:
  assumes "emitVariableDeclaration d sc g = Inr g'"
  shows "insertBlock g' = insertBlock g"
proof -
  from assms obtain e v g1 x g2 where
    e: "emitExpression e g = Inr (v, g1)" and l: "createLoadIfAlloca v g1 = (x, g2)"
    and rest: "(if isConst d then
         (case x of Value y \<Rightarrow> Inr (Scope_set sc (declarationName d) x
               (if \<not> hasName g2 y then setName y (declarationName d) g2 else g2))
           | _ \<Rightarrow> Inl (TypeError ''hasName''))
       else (case createEntryBlockAlloca (declarationType d) (declarationName d) g2 of
               Inl err \<Rightarrow> Inl err
             | Inr (alloca, g3) \<Rightarrow>
                 (case createStore x (Value alloca) g3 of
                    Inl err \<Rightarrow> Inl err
                  | Inr (st, g4) \<Rightarrow> Inr (Scope_set sc (declarationName d) (Value alloca) g4)))) = Inr g'"
    by (auto simp add: emitVariableDeclaration_def Let_def split: option.splits sum.splits prod.splits)
  have a: "insertBlock g2 = insertBlock g"
    using insertBlock_straightLine [OF straightLine_emitExpression(1) [OF e]]
      insertBlock_straightLine [OF straightLine_createLoadIfAlloca [OF l]] by simp
  show ?thesis
  proof (cases "isConst d")
    case True
    with rest a show ?thesis by (auto simp add: insertBlock_simps split: scopeValue.splits if_splits)
  next
    case False
    with rest obtain alloca g3 st g4 where
      al: "createEntryBlockAlloca (declarationType d) (declarationName d) g2 = Inr (alloca, g3)"
      and st: "createStore x (Value alloca) g3 = Inr (st, g4)"
      and g': "g' = Scope_set sc (declarationName d) (Value alloca) g4"
      by (auto split: sum.splits)
    from al have "insertBlock g3 = insertBlock g2"
      by (auto simp add: createEntryBlockAlloca_def createAllocaAt_def split: sum.splits if_splits)
    with insertBlock_straightLine [OF straightLine_createStore [OF st]] a g'
    show ?thesis by (simp add: insertBlock_simps)
  qed
qed

lemma insertBlock_emitVariableStatement:
  "emitVariableStatement ds sc g = Inr g' \<Longrightarrow> insertBlock g' = insertBlock g"
proof (induction ds arbitrary: g)
  case Nil
  then show ?case by simp
next
  case (Cons d ds)
  then show ?case by (auto split: sum.splits dest: insertBlock_emitVariableDeclaration)
qed

lemma insertBlock_emitReturnStatement:
  "emitReturnStatement e g = Inr g' \<Longrightarrow> insertBlock g' = insertBlock g"
  by (auto simp add: emitReturnStatement_def insertBlock_simps
      split: option.splits sum.splits prod.splits
      dest!: straightLine_emitExpression(1) straightLine_createLoadIfAlloca insertBlock_createRet
        insertBlock_straightLine)

lemma insertBlock_emitExpressionStatement:
  "emitExpressionStatement e g = Inr g' \<Longrightarrow> insertBlock g' = insertBlock g"
  by (auto simp add: emitExpressionStatement_def split: sum.splits
      dest!: straightLine_emitExpression(1) insertBlock_straightLine)


lemma insertBlock_emitNode:
  "emitNode n sc g = Inr g' \<Longrightarrow> insertBlock g \<noteq> None \<Longrightarrow> insertBlock g' \<noteq> None"
  "emitNodes ns sc g = Inr g' \<Longrightarrow> insertBlock g \<noteq> None \<Longrightarrow> insertBlock g' \<noteq> None"
  "emitFunctionDeclaration name params ret body sc g = Inr g' \<Longrightarrow> insertBlock g \<noteq> None \<Longrightarrow>
     insertBlock g' \<noteq> None"
  "emitFunctionBody params ret ns func sc g = Inr g' \<Longrightarrow> insertBlock g \<noteq> None \<Longrightarrow>
     insertBlock g' \<noteq> None"
  "emitModuleDeclaration name body sc g = Inr g' \<Longrightarrow> insertBlock g \<noteq> None \<Longrightarrow>
     insertBlock g' \<noteq> None"
  "emitBlock ns g = Inr g' \<Longrightarrow> insertBlock g \<noteq> None \<Longrightarrow> insertBlock g' \<noteq> None"
  "emitFoo block d c sc g = Inr g' \<Longrightarrow> insertBlock g \<noteq> None \<Longrightarrow> insertBlock g' \<noteq> None"
  "emitIfStatement e t el sc g = Inr g' \<Longrightarrow> insertBlock g \<noteq> None \<Longrightarrow> insertBlock g' \<noteq> None"
proof (induction n sc g and ns sc g and name params ret body sc g and params ret ns func sc g
    and name body sc g and ns g and block d c sc g and e t el sc g
    arbitrary: g' and g' and g' and g' and g' and g' and g' and g'
    rule: emitNode_emitNodes_emitFunctionDeclaration_emitFunctionBody_emitModuleDeclaration_emitBlock_emitFoo_emitIfStatement.induct)
  case (1 name params ret body parentScope g)
  then show ?case by simp
next
  case (2 name body parentScope g)
  then show ?case by simp
next
  case (3 statements parentScope g)
  then show ?case by simp
next
  case (4 expr parentScope g)
  then show ?case by (auto dest: insertBlock_emitExpressionStatement)
next
  case (5 expr thenStatement elseStatement parentScope g)
  then show ?case by simp
next
  case (6 expr parentScope g)
  then show ?case by (auto dest: insertBlock_emitReturnStatement)
next
  case (7 declarations parentScope g)
  then show ?case by (auto dest: insertBlock_emitVariableStatement)
next
  case (8 parentScope g)
  then show ?case by simp
next
  case (9 kind parentScope g)
  then show ?case by (auto simp add: insertBlock_simps)
next
  case (10 sc g)
  then show ?case by simp
next
  case (11 n ns sc g)
  from "11.prems"(1) obtain g1 where a: "emitNode n sc g = Inr g1" and b: "emitNodes ns sc g1 = Inr g'"
    by (auto split: sum.splits)
  from "11.IH"(1) [OF a "11.prems"(2)] have "insertBlock g1 \<noteq> None" .
  from "11.IH"(2) [OF a b this] show ?case .
next
  case (12 name params ret body parentScope g)
  show ?case
  proof (cases body)
    case None
    with "12.prems" show ?thesis
      by (auto simp add: Let_def insertBlock_simps Function_create_def verifyFunction_def
          split: prod.splits sum.splits if_splits)
  next
    case (Some statements)
    obtain func g1 where fc: "Function_create ret (map snd params) ExternalLinkage
        (mangleFunctionDeclaration name (scopes g ! parentScope)) g = (func, g1)"
      by (cases "Function_create ret (map snd params) ExternalLinkage
        (mangleFunctionDeclaration name (scopes g ! parentScope)) g")
    obtain bodyScope g2 where ps: "pushScope (Some (mangleFunctionDeclaration name (scopes g ! parentScope))) g1
        = (bodyScope, g2)"
      by (cases "pushScope (Some (mangleFunctionDeclaration name (scopes g ! parentScope))) g1")
    from "12.prems"(1) Some fc ps obtain g3 g5 where
      body: "emitFunctionBody params ret statements func bodyScope g2 = Inr g3"
      and ver: "verifyFunction func (popScope g3) = Inr g5"
      and g': "g' = Scope_set parentScope name (Value (Function func)) g5"
      by (auto simp add: Let_def split: sum.splits)
    have "insertBlock g2 \<noteq> None"
      using fc ps "12.prems"(2) insertBlock_simps(7) [of "Some (mangleFunctionDeclaration name (scopes g ! parentScope))" g1]
        insertBlock_simps(10) [of ret "map snd params" ExternalLinkage
          "mangleFunctionDeclaration name (scopes g ! parentScope)" g]
      by simp
    from "12.IH" [OF refl fc [symmetric] Some ps [symmetric] body this]
    have "insertBlock g3 \<noteq> None" .
    with insertBlock_verifyFunction [OF ver] g' show ?thesis by (simp add: insertBlock_simps)
  qed
next
  case (13 params ret statements func bodyScope g)
  obtain entryBlock g1 where bc: "BasicBlock_create ''entry'' func (bindParameters params func 0 bodyScope g)
      = (entryBlock, g1)"
    by (cases "BasicBlock_create ''entry'' func (bindParameters params func 0 bodyScope g)")
  from "13.prems"(1) bc obtain g2 where
    body: "emitNodes statements bodyScope (setInsertionPoint entryBlock g1) = Inr g2"
    and fin: "insertBlock g' = insertBlock g2"
    by (auto simp add: insertBlock_simps split: sum.splits option.splits if_splits)
  from "13.IH" [OF bc [symmetric] body] fin show ?case by (simp add: insertBlock_simps)
next
  case (14 name body parentScope g)
  obtain sc g1 where ns: "newScope (Some name) g = (sc, g1)"
    by (cases "newScope (Some name) g")
  from "14.prems"(1) ns obtain members g2 where
    b: "body = Some members" and m: "emitNodes members sc g1 = Inr g2"
    and g': "g' = Scope_set parentScope name (ScopeRef sc) g2"
    by (auto split: option.splits sum.splits)
  have "insertBlock g1 \<noteq> None"
    using ns "14.prems"(2) insertBlock_simps(8) [of "Some name" g] by simp
  from "14.IH" [OF ns [symmetric] b m this] g' show ?case by (simp add: insertBlock_simps)
next
  case (15 statements g)
  obtain sc g1 where ps: "pushScope None g = (sc, g1)"
    by (cases "pushScope None g")
  from "15.prems"(1) ps obtain g2 where
    m: "emitNodes statements sc g1 = Inr g2" and g': "g' = popScope g2"
    by (auto split: sum.splits)
  have "insertBlock g1 \<noteq> None"
    using ps "15.prems"(2) insertBlock_simps(7) [of None g] by simp
  from "15.IH" [OF ps [symmetric] m this] g' show ?case by (simp add: insertBlock_simps)
next
  case (16 block destination continuation parentScope g)
  show ?case
  proof (cases block)
    case None
    with "16.prems" show ?thesis
      by (auto simp add: insertBlock_simps split: if_splits)
  next
    case (Some n)
    with "16.prems"(1) obtain g1 where
      m: "emitNode n parentScope (setInsertionPoint destination g) = Inr g1"
      and fin: "insertBlock g' = insertBlock g1"
      by (auto simp add: insertBlock_simps split: sum.splits option.splits if_splits)
    from "16.IH" [OF Some m] fin show ?thesis by (simp add: insertBlock_simps)
  qed
next
  case (17 expr thenStatement elseStatement parentScope g)
  from "17.prems"(1) obtain g7 where "g' = setInsertionPoint (fst (BasicBlock_create ''endif''
      (fst (the (insertBlock (snd (projr (emitExpression expr g))))))
      (snd (BasicBlock_create ''else'' (fst (the (insertBlock (snd (projr (emitExpression expr g))))))
        (snd (BasicBlock_create ''then'' (fst (the (insertBlock (snd (projr (emitExpression expr g))))))
          (snd (projr (emitExpression expr g))))))))) g7"
    by (auto simp add: currentFunction_def split: sum.splits prod.splits option.splits)
  then show ?case by (simp add: insertBlock_simps)
qed


lemma getBlock_insertInstruction:
  "insertBlock g = Some r \<Longrightarrow> validBlock g r \<Longrightarrow>
   instructions (getBlock (snd (insertInstruction i g)) r') =
     instructions (getBlock g r') @ (if r' = r then [(nextId g, i)] else [])"
  using appendInstructions_instructions [of r "moduleFunctions g" "[(nextId g, i)]" "fst r'" "snd r'"]
  by (simp add: insertInstruction_def getBlock_def validBlock_def)

lemma getBlock_setName: "getBlock (setName x n g) r = getBlock g r"
proof (cases x)
  case (Function f)
  then show ?thesis
    by (cases "f < length (moduleFunctions g)"; cases "fst r = f")
      (simp_all add: getBlock_def list_update_beyond)
next
  case (Argument f i)
  then show ?thesis
    by (cases "f < length (moduleFunctions g)"; cases "fst r = f")
      (simp_all add: getBlock_def setArgumentName_def list_update_beyond)
qed (simp_all add: getBlock_def)

lemma getBlock_Scope_set: "getBlock (Scope_set a n v g) r = getBlock g r"
  by (simp add: getBlock_def Scope_set_def)

lemma getBlock_createAllocaAt:
  "validBlock g r \<Longrightarrow>
   instructions (getBlock (snd (createAllocaAt r t n g)) r') =
     instructions (getBlock g r') @ (if r' = r then [(nextId g, Alloca t)] else [])"
  using appendInstructions_instructions [of r "moduleFunctions g" "[(nextId g, Alloca t)]" "fst r'" "snd r'"]
  by (simp add: createAllocaAt_def getBlock_def validBlock_def)

lemma validBlock_createAllocaAt:
  "validBlock (snd (createAllocaAt r t n g)) r' = validBlock g r'"
  by (simp add: createAllocaAt_def validBlock_def appendInstructions_length
      appendInstructions_blocks_length)

lemma appendInstructions_blocks:
  "f < length fs \<Longrightarrow>
   basicBlocks (appendInstructions (f, k) xs fs ! f) =
     (basicBlocks (fs ! f))[k := (basicBlocks (fs ! f) ! k)\<lparr>instructions :=
        instructions (basicBlocks (fs ! f) ! k) @ xs\<rparr>]"
  by (simp add: appendInstructions_def)

lemma blockName_update:
  "map blockName (bs[k := (bs ! k)\<lparr>instructions := zs\<rparr>]) = map blockName bs"
proof (rule nth_equalityI)
  show "length (map blockName (bs[k := (bs ! k)\<lparr>instructions := zs\<rparr>])) = length (map blockName bs)"
    by simp
next
  fix i
  assume "i < length (map blockName (bs[k := (bs ! k)\<lparr>instructions := zs\<rparr>]))"
  then show "map blockName (bs[k := (bs ! k)\<lparr>instructions := zs\<rparr>]) ! i = map blockName bs ! i"
    by (cases "i = k") simp_all
qed

lemma straightLine_blocks:
  assumes "straightLine g g'" and "insertBlock g = Some (f, k)" and "f < length (moduleFunctions g)"
  shows "\<exists>xs. \<not> list_ex (\<lambda>x. isTerminator (snd x)) xs \<and>
     basicBlocks (moduleFunctions g' ! f) =
       (basicBlocks (moduleFunctions g ! f))[k := (basicBlocks (moduleFunctions g ! f) ! k)\<lparr>instructions :=
          instructions (basicBlocks (moduleFunctions g ! f) ! k) @ xs\<rparr>] \<and>
     length (moduleFunctions g') = length (moduleFunctions g) \<and> insertBlock g' = Some (f, k)"
  using assms unfolding straightLine_def
  by (auto simp add: appendInstructions_blocks appendInstructions_length)

lemma emitFoo_return:
  assumes run: "emitFoo (Some (Block [ReturnStatement (Some e)])) (f, k) c sc g = Inr g'"
    and f: "f < length (moduleFunctions g)" and k: "k < length (basicBlocks (moduleFunctions g ! f))"
  shows "\<exists>xs i v. \<not> list_ex (\<lambda>x. isTerminator (snd x)) xs \<and>
     basicBlocks (moduleFunctions g' ! f) =
       (basicBlocks (moduleFunctions g ! f))[k := (basicBlocks (moduleFunctions g ! f) ! k)\<lparr>instructions :=
          instructions (basicBlocks (moduleFunctions g ! f) ! k) @ xs @ [(i, Ret v)]\<rparr>] \<and>
     length (moduleFunctions g') = length (moduleFunctions g) \<and> insertBlock g' = Some (f, k)"
proof -
  define g0 where "g0 = snd (pushScope None (setInsertionPoint (f, k) g))"
  have g0: "moduleFunctions g0 = moduleFunctions g" "insertBlock g0 = Some (f, k)"
    by (simp_all add: g0_def pushScope_def newScope_def setInsertionPoint_def)
  from run obtain gr where ret: "emitReturnStatement (Some e) g0 = Inr gr"
    by (auto simp add: g0_def split: sum.splits prod.splits)
  from ret obtain v0 g1 x g2 where
    e: "emitExpression e g0 = Inr (v0, g1)" and l: "createLoadIfAlloca v0 g1 = (x, g2)"
    and r: "createRet x g2 = Inr gr"
    by (auto simp add: emitReturnStatement_def split: sum.splits prod.splits)
  from r obtain v where x: "x = Value v" and gr: "gr = snd (insertInstruction (Ret v) g2)"
    by (auto simp add: createRet_def split: scopeValue.splits)
  have sl: "straightLine g0 g2"
    using straightLine_trans [OF straightLine_emitExpression(1) [OF e] straightLine_createLoadIfAlloca [OF l]] .
  from straightLine_blocks [OF sl g0(2)] f g0(1) obtain xs where
    xs: "\<not> list_ex (\<lambda>x. isTerminator (snd x)) xs"
    and b2: "basicBlocks (moduleFunctions g2 ! f) =
       (basicBlocks (moduleFunctions g ! f))[k := (basicBlocks (moduleFunctions g ! f) ! k)\<lparr>instructions :=
          instructions (basicBlocks (moduleFunctions g ! f) ! k) @ xs\<rparr>]"
    and l2: "length (moduleFunctions g2) = length (moduleFunctions g)"
    and i2: "insertBlock g2 = Some (f, k)"
    by auto
  have br: "basicBlocks (moduleFunctions gr ! f) =
       (basicBlocks (moduleFunctions g ! f))[k := (basicBlocks (moduleFunctions g ! f) ! k)\<lparr>instructions :=
          instructions (basicBlocks (moduleFunctions g ! f) ! k) @ xs @ [(nextId g2, Ret v)]\<rparr>]"
    using f k l2 i2 b2 by (simp add: gr insertInstruction_def appendInstructions_blocks)
  have lr: "length (moduleFunctions gr) = length (moduleFunctions g)"
    using l2 i2 by (simp add: gr insertInstruction_def appendInstructions_length)
  have ir: "insertBlock gr = Some (f, k)" using i2 by (simp add: gr insertInstruction_def)
  have tm: "getTerminator (getBlock (popScope gr) (f, k)) \<noteq> None"
    using br k by (simp add: getTerminator_def getBlock_def popScope_def)
  have "g' = popScope gr"
    using run ret ir tm by (auto simp add: g0_def popScope_def split: prod.splits)
  then show ?thesis using xs br lr ir by (auto simp add: popScope_def)
qed


lemma BasicBlock_create_blocks:
  assumes "f < length (moduleFunctions g)"
  shows "fst (BasicBlock_create nm f g) = (f, length (basicBlocks (moduleFunctions g ! f)))"
    and "basicBlocks (moduleFunctions (snd (BasicBlock_create nm f g)) ! f) =
           basicBlocks (moduleFunctions g ! f) @ [\<lparr>blockName = nm, instructions = []\<rparr>]"
    and "length (moduleFunctions (snd (BasicBlock_create nm f g))) = length (moduleFunctions g)"
    and "insertBlock (snd (BasicBlock_create nm f g)) = insertBlock g"
  using assms by (simp_all add: BasicBlock_create_def)

lemma emitVariableDeclaration_resolved:
  "emitVariableStatement [d] sc g = emitVariableDeclaration d sc g \<and>
   (initializer d = Some e \<and> emitExpression e g = Inr (v, g1) \<and>
    createLoadIfAlloca v g1 = (Value x, g2) \<and> isConst d \<longrightarrow>
      emitVariableDeclaration d sc g =
        Inr (Scope_set sc (declarationName d) (Value x)
               (if hasName g2 x then g2 else setName x (declarationName d) g2)) \<and>
      (case emitVariableDeclaration d sc g of
         Inl err \<Rightarrow> False
       | Inr g' \<Rightarrow>
           nextId g' = nextId g2 \<and>
           (\<forall>r. instructions (getBlock g' r) = instructions (getBlock g2 r)) \<and>
           (sc < length (scopes g2) \<longrightarrow>
              bindings (scopes g' ! sc) (declarationName d) = Some (Value x)))) \<and>
   (initializer d = Some e \<and> emitExpression e g = Inr (v, g1) \<and>
    createLoadIfAlloca v g1 = (Value x, g2) \<and> \<not> isConst d \<and>
    insertBlock g2 = Some (f, b) \<and> validBlock g2 (f, b) \<longrightarrow>
      (case emitVariableDeclaration d sc g of
         Inl err \<Rightarrow> False
       | Inr g' \<Rightarrow>
           instructions (getBlock g' (f, 0)) =
             instructions (getBlock g2 (f, 0)) @ [(nextId g2, Alloca (declarationType d))] @
               (if b = 0 then [(Suc (nextId g2), Store x (AllocaInst (nextId g2)))] else []) \<and>
           instructions (getBlock g' (f, b)) =
             instructions (getBlock g2 (f, b)) @
               (if b = 0 then [(nextId g2, Alloca (declarationType d))] else []) @
               [(Suc (nextId g2), Store x (AllocaInst (nextId g2)))] \<and>
           (\<forall>r. r \<noteq> (f, 0) \<and> r \<noteq> (f, b) \<longrightarrow>
              instructions (getBlock g' r) = instructions (getBlock g2 r)) \<and>
           valueNames g' (nextId g2) = Some (declarationName d) \<and>
           insertBlock g' = Some (f, b) \<and>
           (sc < length (scopes g2) \<longrightarrow>
              bindings (scopes g' ! sc) (declarationName d) = Some (Value (AllocaInst (nextId g2))))))"
proof (intro conjI impI)
  show "emitVariableStatement [d] sc g = emitVariableDeclaration d sc g"
    by (simp split: sum.splits)
next
  assume a: "initializer d = Some e \<and> emitExpression e g = Inr (v, g1) \<and>
    createLoadIfAlloca v g1 = (Value x, g2) \<and> isConst d"
  then show eq: "emitVariableDeclaration d sc g =
        Inr (Scope_set sc (declarationName d) (Value x)
               (if hasName g2 x then g2 else setName x (declarationName d) g2))"
    by (simp add: emitVariableDeclaration_def Let_def)
  have n: "nextId (setName x (declarationName d) g2) = nextId g2"
    by (cases x) (simp_all add: setArgumentName_def)
  have s: "scopes (setName x (declarationName d) g2) = scopes g2"
    by (cases x) (simp_all add: setArgumentName_def)
  show "case emitVariableDeclaration d sc g of
         Inl err \<Rightarrow> False
       | Inr g' \<Rightarrow>
           nextId g' = nextId g2 \<and>
           (\<forall>r. instructions (getBlock g' r) = instructions (getBlock g2 r)) \<and>
           (sc < length (scopes g2) \<longrightarrow>
              bindings (scopes g' ! sc) (declarationName d) = Some (Value x))"
    unfolding eq using n s
    by (simp add: getBlock_Scope_set getBlock_setName) (simp add: Scope_set_def)
next
  assume a: "initializer d = Some e \<and> emitExpression e g = Inr (v, g1) \<and>
    createLoadIfAlloca v g1 = (Value x, g2) \<and> \<not> isConst d \<and>
    insertBlock g2 = Some (f, b) \<and> validBlock g2 (f, b)"
  define g3 where "g3 = snd (createAllocaAt (f, 0) (declarationType d) (declarationName d) g2)"
  define g4 where "g4 = snd (insertInstruction (Store x (AllocaInst (nextId g2))) g3)"
  have v0: "validBlock g2 (f, 0)" using a by (auto simp add: validBlock_def)
  have ne: "basicBlocks (moduleFunctions g2 ! f) \<noteq> []" using a by (auto simp add: validBlock_def)
  have eq: "emitVariableDeclaration d sc g =
      Inr (Scope_set sc (declarationName d) (Value (AllocaInst (nextId g2))) g4)"
    using a ne
    by (simp add: emitVariableDeclaration_def Let_def createEntryBlockAlloca_def currentFunction_def
        createStore_def g3_def g4_def createAllocaAt_def insertInstruction_def)
  have i3: "insertBlock g3 = Some (f, b)" using a by (simp add: g3_def createAllocaAt_def)
  have v3: "validBlock g3 (f, b)" using a by (simp add: g3_def validBlock_createAllocaAt)
  have n3: "nextId g3 = Suc (nextId g2)" by (simp add: g3_def createAllocaAt_def)
  have b3: "\<And>r. instructions (getBlock g3 r) = instructions (getBlock g2 r) @
      (if r = (f, 0) then [(nextId g2, Alloca (declarationType d))] else [])"
    unfolding g3_def using getBlock_createAllocaAt [OF v0] by simp
  have b4: "\<And>r. instructions (getBlock g4 r) = instructions (getBlock g3 r) @
      (if r = (f, b) then [(Suc (nextId g2), Store x (AllocaInst (nextId g2)))] else [])"
    unfolding g4_def using getBlock_insertInstruction [OF i3 v3] n3 by simp
  have names: "valueNames g4 (nextId g2) = Some (declarationName d)"
    by (simp add: g4_def g3_def insertInstruction_def createAllocaAt_def)
  have i4: "insertBlock g4 = Some (f, b)" using i3 by (simp add: g4_def insertInstruction_def)
  have s4: "scopes g4 = scopes g2"
    by (simp add: g4_def g3_def insertInstruction_def createAllocaAt_def)
  show "case emitVariableDeclaration d sc g of
         Inl err \<Rightarrow> False
       | Inr g' \<Rightarrow>
           instructions (getBlock g' (f, 0)) =
             instructions (getBlock g2 (f, 0)) @ [(nextId g2, Alloca (declarationType d))] @
               (if b = 0 then [(Suc (nextId g2), Store x (AllocaInst (nextId g2)))] else []) \<and>
           instructions (getBlock g' (f, b)) =
             instructions (getBlock g2 (f, b)) @
               (if b = 0 then [(nextId g2, Alloca (declarationType d))] else []) @
               [(Suc (nextId g2), Store x (AllocaInst (nextId g2)))] \<and>
           (\<forall>r. r \<noteq> (f, 0) \<and> r \<noteq> (f, b) \<longrightarrow>
              instructions (getBlock g' r) = instructions (getBlock g2 r)) \<and>
           valueNames g' (nextId g2) = Some (declarationName d) \<and>
           insertBlock g' = Some (f, b) \<and>
           (sc < length (scopes g2) \<longrightarrow>
              bindings (scopes g' ! sc) (declarationName d) = Some (Value (AllocaInst (nextId g2))))"
    unfolding eq using names i4 s4
    by (simp add: getBlock_Scope_set b4 b3) (simp add: Scope_set_def)
qed

section \<open>Closing a function body\<close>

text \<open>
  Claim C1. When the statements of a function body are lowered and the insertion block
  has no terminator, a void return is emitted if the declared return type is void, and
  otherwise the path is to be marked unreachable. The source does the first and leaves
  the second undone (its branch holds a TODO and no code): on \<open>function f(): void {}\<close>
  the entry block ends in a void return, on \<open>function f(): boolean {}\<close> the entry block
  stays empty, without terminator, and lowering the declaration ends in the verification
  failure of \<open>f\<close>.
\<close>

theorem nonvoid_fallthrough_unterminated:
  "(case emitFunctionBody [] VoidTy [] 0 1
           (snd (pushScope (Some ''f'') (snd (Function_create VoidTy [] ExternalLinkage ''f'' newGenerator)))) of
      Inl e \<Rightarrow> False
    | Inr g \<Rightarrow>
        insertBlock g = Some (0, 0) \<and>
        map instructions (basicBlocks (moduleFunctions g ! 0)) = [[(0, RetVoid)]]) \<and>
   (case emitFunctionBody [] Int1Ty [] 0 1
           (snd (pushScope (Some ''f'') (snd (Function_create Int1Ty [] ExternalLinkage ''f'' newGenerator)))) of
      Inl e \<Rightarrow> False
    | Inr g \<Rightarrow>
        insertBlock g = Some (0, 0) \<and>
        map instructions (basicBlocks (moduleFunctions g ! 0)) = [[]] \<and>
        getTerminator (getBlock g (0, 0)) = None) \<and>
   emitSourceFile [FunctionDeclaration ''f'' [] Int1Ty (Some []), EndOfFileToken] newGenerator =
     Inl (VerificationFailure ''f'')"
  by (simp add: generator_defs)

section \<open>One terminator per block\<close>

text \<open>
  Claim C2. Every block of a function whose lowering completed has exactly one
  terminator and nothing after it; in particular a stack slot hoisted into the entry
  block never stands after the entry block's terminator. The source breaks this: the
  builder stays in the last block of a finished function, and \<open>createEntryBlockAlloca\<close>
  puts the slot at the end of the entry block. On the source file
  \<open>function f(): void {} let x = true;\<close> the function \<open>f\<close> is lowered and passes its
  verification, then the top-level declaration puts its stack slot and its store after
  the void return of the entry block of \<open>f\<close>; \<open>emitSourceFile\<close> returns normally and the
  module verification of \<open>emitLLVM\<close> refuses the module.
\<close>

theorem alloca_after_terminator:
  "(case emitSourceFile
          [FunctionDeclaration ''f'' [] VoidTy (Some []),
           VariableStatement [\<lparr>declarationName = ''x'', initializer = Some TrueKeyword,
             isConst = False, declarationType = Int1Ty\<rparr>],
           EndOfFileToken] newGenerator of
      Inl e \<Rightarrow> False
    | Inr g \<Rightarrow>
        verifiedFunctions g = [0] \<and>
        map functionName (moduleFunctions g) = [''f''] \<and>
        map instructions (basicBlocks (moduleFunctions g ! 0)) =
          [[(0, RetVoid), (1, Alloca Int1Ty), (2, Store ConstantTrue (AllocaInst 1))]] \<and>
        \<not> wellFormedBlock (getBlock g (0, 0))) \<and>
   emitLLVM [[FunctionDeclaration ''f'' [] VoidTy (Some []),
           VariableStatement [\<lparr>declarationName = ''x'', initializer = Some TrueKeyword,
             isConst = False, declarationType = Int1Ty\<rparr>],
           EndOfFileToken]] = Inl (VerificationFailure ''main'')"
  by (simp add: generator_defs)

section \<open>If and else that both return\<close>

text \<open>
  Claim C3, as stated: lowering \<open>if (c) { return 1; } else { return 2; }\<close> inside a
  function gives four blocks of which then and else end in a return. It fails on the
  source: a numeric literal is no case of \<open>emitExpression\<close>, so lowering the first
  \<open>return 1\<close> is the fatal error \<open>Unhandled ts.Expression 'FirstLiteralToken'\<close>.
\<close>

theorem if_else_numeric_literals:
  "emitSourceFile
     [FunctionDeclaration ''f'' [(''c'', Int1Ty)] DoubleTy
        (Some [IfStatement (Identifier ''c'')
                 (Block [ReturnStatement (Some (NumericLiteral ''1''))])
                 (Some (Block [ReturnStatement (Some (NumericLiteral ''2''))]))]),
      EndOfFileToken] newGenerator =
   Inl (UnsupportedExpression (''Unhandled ts.Expression 'FirstLiteralToken'' @ [CHR 0x27]))"
  by (simp add: generator_defs)

text \<open>
  Claim C3, amended: for \<open>if (c) { return a; } else { return b; }\<close> with any expressions
  \<open>c\<close>, \<open>a\<close>, \<open>b\<close>, lowered with the builder in a block of function \<open>f\<close>: whenever lowering
  succeeds, \<open>f\<close> has gained exactly the three blocks then, else and endif, in this order
  after the blocks it had (so entry, then, else, endif for a function that had its entry
  block only); the then and the else block each end in a return instruction, not in a
  branch to endif; endif is empty and is the new insertion block; the block the
  statement started in ends in the conditional branch to then and else.
\<close>

theorem if_else_returns:
  assumes ib: "insertBlock g = Some (f, b)" and vb: "validBlock g (f, b)"
    and run: "emitNode (IfStatement c (Block [ReturnStatement (Some e1)])
                 (Some (Block [ReturnStatement (Some e2)]))) sc g = Inr g'"
  shows "map blockName (basicBlocks (moduleFunctions g' ! f)) =
           map blockName (basicBlocks (moduleFunctions g ! f)) @ [''then'', ''else'', ''endif''] \<and>
         (\<exists>i v. getTerminator (getBlock g' (f, length (basicBlocks (moduleFunctions g ! f)))) =
             Some (i, Ret v)) \<and>
         (\<exists>i v. getTerminator (getBlock g' (f, Suc (length (basicBlocks (moduleFunctions g ! f))))) =
             Some (i, Ret v)) \<and>
         instructions (getBlock g' (f, Suc (Suc (length (basicBlocks (moduleFunctions g ! f)))))) = [] \<and>
         (\<exists>i cv. getTerminator (getBlock g' (f, b)) =
             Some (i, CondBr cv (f, length (basicBlocks (moduleFunctions g ! f)))
                              (f, Suc (length (basicBlocks (moduleFunctions g ! f)))))) \<and>
         insertBlock g' = Some (f, Suc (Suc (length (basicBlocks (moduleFunctions g ! f)))))"
proof -
  define bs0 where "bs0 = basicBlocks (moduleFunctions g ! f)"
  define n where "n = length bs0"
  have f: "f < length (moduleFunctions g)" and b: "b < n"
    using vb by (simp_all add: validBlock_def n_def bs0_def)
  from run obtain cond g1 where c: "emitExpression c g = Inr (cond, g1)"
    by (auto split: sum.splits)
  from straightLine_blocks [OF straightLine_emitExpression(1) [OF c] ib f] obtain cs where
    b1: "basicBlocks (moduleFunctions g1 ! f) = bs0[b := (bs0 ! b)\<lparr>instructions := instructions (bs0 ! b) @ cs\<rparr>]"
    and l1: "length (moduleFunctions g1) = length (moduleFunctions g)"
    and i1: "insertBlock g1 = Some (f, b)"
    by (auto simp add: bs0_def)
  define g2 where "g2 = snd (BasicBlock_create ''then'' f g1)"
  define g3 where "g3 = snd (BasicBlock_create ''else'' f g2)"
  define g4 where "g4 = snd (BasicBlock_create ''endif'' f g3)"
  have f1: "f < length (moduleFunctions g1)" using f l1 by simp
  have t2: "fst (BasicBlock_create ''then'' f g1) = (f, n)"
    and b2: "basicBlocks (moduleFunctions g2 ! f) =
      bs0[b := (bs0 ! b)\<lparr>instructions := instructions (bs0 ! b) @ cs\<rparr>] @ [\<lparr>blockName = ''then'', instructions = []\<rparr>]"
    and l2: "length (moduleFunctions g2) = length (moduleFunctions g)"
    and i2: "insertBlock g2 = Some (f, b)"
    using BasicBlock_create_blocks [OF f1, of "''then''"] b1 l1 i1 by (simp_all add: g2_def n_def)
  have f2: "f < length (moduleFunctions g2)" using f l2 by simp
  have t3: "fst (BasicBlock_create ''else'' f g2) = (f, Suc n)"
    and b3: "basicBlocks (moduleFunctions g3 ! f) =
      bs0[b := (bs0 ! b)\<lparr>instructions := instructions (bs0 ! b) @ cs\<rparr>] @
        [\<lparr>blockName = ''then'', instructions = []\<rparr>, \<lparr>blockName = ''else'', instructions = []\<rparr>]"
    and l3: "length (moduleFunctions g3) = length (moduleFunctions g)"
    and i3: "insertBlock g3 = Some (f, b)"
    using BasicBlock_create_blocks [OF f2, of "''else''"] b2 l2 i2 by (simp_all add: g3_def n_def)
  have f3: "f < length (moduleFunctions g3)" using f l3 by simp
  have t4: "fst (BasicBlock_create ''endif'' f g3) = (f, Suc (Suc n))"
    and b4: "basicBlocks (moduleFunctions g4 ! f) =
      bs0[b := (bs0 ! b)\<lparr>instructions := instructions (bs0 ! b) @ cs\<rparr>] @
        [\<lparr>blockName = ''then'', instructions = []\<rparr>, \<lparr>blockName = ''else'', instructions = []\<rparr>,
         \<lparr>blockName = ''endif'', instructions = []\<rparr>]"
    and l4: "length (moduleFunctions g4) = length (moduleFunctions g)"
    and i4: "insertBlock g4 = Some (f, b)"
    using BasicBlock_create_blocks [OF f3, of "''endif''"] b3 l3 i3 by (simp_all add: g4_def n_def)
  have cf: "currentFunction g1 = Inr f" using i1 by (simp add: currentFunction_def)
  from run c cf obtain g5 g6 g7 where
    cb: "createCondBr cond (f, n) (f, Suc n) g4 = Inr g5"
    and th: "emitFoo (Some (Block [ReturnStatement (Some e1)])) (f, n) (f, Suc (Suc n)) sc g5 = Inr g6"
    and el: "emitFoo (Some (Block [ReturnStatement (Some e2)])) (f, Suc n) (f, Suc (Suc n)) sc g6 = Inr g7"
    and g': "g' = setInsertionPoint (f, Suc (Suc n)) g7"
    using t2 t3 t4
    by (auto simp add: g2_def g3_def g4_def split: sum.splits prod.splits)
  from cb obtain cv where cond: "cond = Value cv"
    and g5: "g5 = snd (insertInstruction (CondBr cv (f, n) (f, Suc n)) g4)"
    by (auto simp add: createCondBr_def split: scopeValue.splits)
  define entry where "entry = (bs0 ! b)\<lparr>instructions :=
      instructions (bs0 ! b) @ cs @ [(nextId g4, CondBr cv (f, n) (f, Suc n))]\<rparr>"
  have b5: "basicBlocks (moduleFunctions g5 ! f) =
      bs0[b := entry] @
        [\<lparr>blockName = ''then'', instructions = []\<rparr>, \<lparr>blockName = ''else'', instructions = []\<rparr>,
         \<lparr>blockName = ''endif'', instructions = []\<rparr>]"
    and l5: "length (moduleFunctions g5) = length (moduleFunctions g)"
    using f l4 i4 b4 b
    by (simp_all add: g5 insertInstruction_def appendInstructions_blocks appendInstructions_length
        list_update_append nth_append n_def entry_def)
  have f5: "f < length (moduleFunctions g5)" using f l5 by simp
  have n5: "n < length (basicBlocks (moduleFunctions g5 ! f))" by (simp add: b5 n_def)
  from emitFoo_return [OF th f5 n5] obtain xs i1 v1 where
    b6: "basicBlocks (moduleFunctions g6 ! f) =
      bs0[b := entry] @
        [\<lparr>blockName = ''then'', instructions = xs @ [(i1, Ret v1)]\<rparr>,
         \<lparr>blockName = ''else'', instructions = []\<rparr>,
         \<lparr>blockName = ''endif'', instructions = []\<rparr>]"
    and l6: "length (moduleFunctions g6) = length (moduleFunctions g)"
    by (auto simp add: b5 l5 n_def list_update_append nth_append)
  have f6: "f < length (moduleFunctions g6)" using f l6 by simp
  have n6: "Suc n < length (basicBlocks (moduleFunctions g6 ! f))" by (simp add: b6 n_def)
  from emitFoo_return [OF el f6 n6] obtain ys i2 v2 where
    b7: "basicBlocks (moduleFunctions g7 ! f) =
      bs0[b := entry] @
        [\<lparr>blockName = ''then'', instructions = xs @ [(i1, Ret v1)]\<rparr>,
         \<lparr>blockName = ''else'', instructions = ys @ [(i2, Ret v2)]\<rparr>,
         \<lparr>blockName = ''endif'', instructions = []\<rparr>]"
    by (auto simp add: b6 l6 n_def list_update_append nth_append)
  have bfin: "basicBlocks (moduleFunctions g' ! f) =
      bs0[b := entry] @
        [\<lparr>blockName = ''then'', instructions = xs @ [(i1, Ret v1)]\<rparr>,
         \<lparr>blockName = ''else'', instructions = ys @ [(i2, Ret v2)]\<rparr>,
         \<lparr>blockName = ''endif'', instructions = []\<rparr>]"
    using b7 by (simp add: g' setInsertionPoint_def)
  have names: "map blockName (bs0[b := entry]) = map blockName bs0"
    unfolding entry_def by (rule blockName_update)
  have len: "length (bs0[b := entry]) = n" by (simp add: n_def)
  show ?thesis
    unfolding bs0_def [symmetric] n_def [symmetric]
    using names len b
    by (simp add: b7 getBlock_def getTerminator_def nth_append g' setInsertionPoint_def entry_def)
qed

theorem if_else_returns_witness:
  "(case emitNode (IfStatement (Identifier ''c'') (Block [ReturnStatement (Some TrueKeyword)])
            (Some (Block [ReturnStatement (Some FalseKeyword)]))) 1 exampleBody of
      Inl e \<Rightarrow> False
    | Inr g' \<Rightarrow>
        map blockName (basicBlocks (moduleFunctions g' ! 0)) = [''entry'', ''then'', ''else'', ''endif''] \<and>
        (\<exists>i v. getTerminator (getBlock g' (0, 1)) = Some (i, Ret v)) \<and>
        (\<exists>i v. getTerminator (getBlock g' (0, 2)) = Some (i, Ret v)) \<and>
        instructions (getBlock g' (0, 3)) = [] \<and>
        (\<exists>i cv. getTerminator (getBlock g' (0, 0)) = Some (i, CondBr cv (0, 1) (0, 2))) \<and>
        insertBlock g' = Some (0, 3))"
proof -
  have ib: "insertBlock exampleBody = Some (0, 0)"
    by (simp add: generator_defs)
  have vb: "validBlock exampleBody (0, 0)"
    by (simp add: generator_defs)
  have bs: "map blockName (basicBlocks (moduleFunctions exampleBody ! 0)) = [''entry'']"
    "length (basicBlocks (moduleFunctions exampleBody ! 0)) = 1"
    by (simp_all add: generator_defs)
  obtain g' where run: "emitNode (IfStatement (Identifier ''c'') (Block [ReturnStatement (Some TrueKeyword)])
            (Some (Block [ReturnStatement (Some FalseKeyword)]))) 1 exampleBody = Inr g'"
    by (simp add: generator_defs)
  from if_else_returns [OF ib vb run] show ?thesis
    unfolding run bs by (simp add: numeral_2_eq_2 numeral_3_eq_3)
qed

section \<open>The branch-lowering helper\<close>

text \<open>
  Claim C4. \<open>emitFoo\<close>, given an optional statement, a destination block and a
  continuation block, positions the builder at the destination and lowers the statement
  if there is one; a failure of that lowering is the failure of the helper. Afterwards
  there always is an insertion block, and the helper emits an unconditional branch to
  the continuation exactly when that block has no terminator: the branch becomes its
  last instruction, and a block that already ends in a return or a branch is left as it
  is. In particular an absent statement, with a destination that has no terminator yet,
  gives the destination the branch to the continuation and nothing else.
\<close>

theorem branch_lowering_helper:
  "(\<forall>e. (case block of
            None \<Rightarrow> Inr (setInsertionPoint destination g)
          | Some n \<Rightarrow> emitNode n parentScope (setInsertionPoint destination g)) = Inl e \<longrightarrow>
        emitFoo block destination continuation parentScope g = Inl e) \<and>
   (\<forall>g1. (case block of
            None \<Rightarrow> Inr (setInsertionPoint destination g)
          | Some n \<Rightarrow> emitNode n parentScope (setInsertionPoint destination g)) = Inr g1 \<longrightarrow>
        (\<exists>r. insertBlock g1 = Some r \<and>
           emitFoo block destination continuation parentScope g =
             (if getTerminator (getBlock g1 r) = None then Inr (createBr continuation g1)
              else Inr g1) \<and>
           (validBlock g1 r \<longrightarrow>
              instructions (getBlock (createBr continuation g1) r) =
                instructions (getBlock g1 r) @ [(nextId g1, Br continuation)]))) \<and>
   (validBlock g destination \<and> getTerminator (getBlock g destination) = None \<longrightarrow>
      (case emitFoo None destination continuation parentScope g of
         Inl e \<Rightarrow> False
       | Inr g' \<Rightarrow>
           insertBlock g' = Some destination \<and>
           instructions (getBlock g' destination) =
             instructions (getBlock g destination) @ [(nextId g, Br continuation)]))"
proof (intro conjI allI impI)
  fix e
  assume "(case block of None \<Rightarrow> Inr (setInsertionPoint destination g)
          | Some n \<Rightarrow> emitNode n parentScope (setInsertionPoint destination g)) = Inl e"
  then show "emitFoo block destination continuation parentScope g = Inl e" by simp
next
  fix g1
  assume low: "(case block of None \<Rightarrow> Inr (setInsertionPoint destination g)
          | Some n \<Rightarrow> emitNode n parentScope (setInsertionPoint destination g)) = Inr g1"
  have "insertBlock g1 \<noteq> None"
  proof (cases block)
    case None
    with low show ?thesis by (auto simp add: setInsertionPoint_def)
  next
    case (Some n)
    with low have "emitNode n parentScope (setInsertionPoint destination g) = Inr g1" by simp
    from insertBlock_emitNode(1) [OF this] show ?thesis by (simp add: setInsertionPoint_def)
  qed
  then obtain r where r: "insertBlock g1 = Some r" by auto
  have eq: "emitFoo block destination continuation parentScope g =
      (if getTerminator (getBlock g1 r) = None then Inr (createBr continuation g1) else Inr g1)"
    using low r by simp
  have app: "validBlock g1 r \<longrightarrow> instructions (getBlock (createBr continuation g1) r) =
      instructions (getBlock g1 r) @ [(nextId g1, Br continuation)]"
    using getBlock_insertInstruction [OF r, of "Br continuation" r] by (simp add: createBr_def)
  from r eq app show "\<exists>r. insertBlock g1 = Some r \<and>
      emitFoo block destination continuation parentScope g =
        (if getTerminator (getBlock g1 r) = None then Inr (createBr continuation g1) else Inr g1) \<and>
      (validBlock g1 r \<longrightarrow>
         instructions (getBlock (createBr continuation g1) r) =
           instructions (getBlock g1 r) @ [(nextId g1, Br continuation)])"
    by blast
next
  assume a: "validBlock g destination \<and> getTerminator (getBlock g destination) = None"
  have v: "validBlock (setInsertionPoint destination g) destination"
    using a by (simp add: validBlock_def setInsertionPoint_def)
  have i: "insertBlock (setInsertionPoint destination g) = Some destination"
    by (simp add: setInsertionPoint_def)
  have t: "getBlock (setInsertionPoint destination g) destination = getBlock g destination"
    by (simp add: getBlock_def setInsertionPoint_def)
  show "case emitFoo None destination continuation parentScope g of
         Inl e \<Rightarrow> False
       | Inr g' \<Rightarrow>
           insertBlock g' = Some destination \<and>
           instructions (getBlock g' destination) =
             instructions (getBlock g destination) @ [(nextId g, Br continuation)]"
    using a getBlock_insertInstruction [OF i v, of "Br continuation" destination]
    by (simp add: i t createBr_def insertBlock_simps) (simp add: setInsertionPoint_def)
qed

theorem branch_lowering_helper_witness:
  "(case emitFoo None (0, 1) (0, 0) 1 exampleBranch of
      Inl e \<Rightarrow> False
    | Inr g' \<Rightarrow>
        map instructions (basicBlocks (moduleFunctions g' ! 0)) = [[], [(0, Br (0, 0))]] \<and>
        insertBlock g' = Some (0, 1)) \<and>
   (case emitFoo (Some (ReturnStatement None)) (0, 1) (0, 0) 1 exampleBranch of
      Inl e \<Rightarrow> False
    | Inr g' \<Rightarrow>
        map instructions (basicBlocks (moduleFunctions g' ! 0)) = [[], [(0, RetVoid)]]) \<and>
   (case emitFoo (Some (ExpressionStatement (Identifier ''c''))) (0, 1) (0, 0) 1 exampleBranch of
      Inl e \<Rightarrow> False
    | Inr g' \<Rightarrow>
        map instructions (basicBlocks (moduleFunctions g' ! 0)) = [[], [(0, Br (0, 0))]]) \<and>
   emitFoo (Some (ExpressionStatement (Identifier ''z''))) (0, 1) (0, 0) 1 exampleBranch =
     Inl (UnresolvedName ''z'')"
  using branch_lowering_helper [where block = None and destination = "(0, 1)"
      and continuation = "(0, 0)" and parentScope = 1 and g = exampleBranch]
    branch_lowering_helper [where block = "Some (ReturnStatement None)" and destination = "(0, 1)"
      and continuation = "(0, 0)" and parentScope = 1 and g = exampleBranch]
  by (simp add: generator_defs)

section \<open>Name mangling\<close>

text \<open>
  Claim C5. The mangled name depends on the declaration's simple name and on the name of
  the enclosing scope only (two scopes with the same name give the same result, whatever
  they bind). Under a scope without a name, such as the global scope, it is the simple
  name unchanged; under a scope with a non-empty name it is that name, the separator
  \<open>__\<close> and the simple name. So \<open>f\<close> mangles to \<open>f\<close> at the global scope and to \<open>M__f\<close>
  under a scope named \<open>M\<close>.
\<close>

theorem mangle_scope_prefix:
  "(scopeName sc = scopeName sc' \<longrightarrow>
      mangleFunctionDeclaration n sc = mangleFunctionDeclaration n sc') \<and>
   (scopeName sc = None \<longrightarrow> mangleFunctionDeclaration n sc = n) \<and>
   (scopeName sc = Some m \<and> m \<noteq> [] \<longrightarrow> mangleFunctionDeclaration n sc = m @ ''__'' @ n) \<and>
   mangleFunctionDeclaration ''f'' (scopes newGenerator ! globalScope) = ''f'' \<and>
   mangleFunctionDeclaration ''f'' \<lparr>scopeName = Some ''M'', bindings = b\<rparr> = ''M__f''"
  by (simp add: mangleFunctionDeclaration_def newGenerator_def globalScope_def)

theorem mangle_scope_prefix_witness:
  "mangleFunctionDeclaration ''g'' \<lparr>scopeName = None, bindings = Map.empty\<rparr> = ''g'' \<and>
   mangleFunctionDeclaration ''g'' \<lparr>scopeName = Some ''N'', bindings = Map.empty\<rparr> = ''N__g'' \<and>
   mangleFunctionDeclaration ''g'' \<lparr>scopeName = Some ''N'', bindings = Map.empty\<rparr> =
     mangleFunctionDeclaration ''g'' \<lparr>scopeName = Some ''N'', bindings = [''a'' \<mapsto> Undefined]\<rparr>"
  using mangle_scope_prefix [of "\<lparr>scopeName = None, bindings = Map.empty\<rparr>"
      "\<lparr>scopeName = None, bindings = Map.empty\<rparr>" "''g''" "''N''" Map.empty]
    mangle_scope_prefix [of "\<lparr>scopeName = Some ''N'', bindings = Map.empty\<rparr>"
      "\<lparr>scopeName = Some ''N'', bindings = [''a'' \<mapsto> Undefined]\<rparr>" "''g''" "''N''" Map.empty]
  by auto

section \<open>Variable declarations\<close>

text \<open>
  Claim C6. For a declaration of a variable statement whose initializer lowers to a
  value, that value is load-resolved first: if it is a stack slot, a load of the slot is
  added to the insertion block and the result of the load takes its place; any other
  value stays as it is and nothing is added. If the declaration is immutable, the
  resolved value is bound under the declared name, no further instruction is created (no
  stack slot, no store), and the value takes the declared name only if it has no name
  yet. If the declaration is mutable, a stack slot of the declared type and name is added
  at the end of the entry block of the current function (block 0, which need not be the
  insertion block), the store of the resolved value into the slot is added to the
  insertion block, no other block changes, and the slot is what is bound. A statement
  with one declaration is that one round.
\<close>

theorem variable_declaration:
  "emitVariableStatement [d] sc g = emitVariableDeclaration d sc g \<and>
   (initializer d = Some e \<and> emitExpression e g = Inr (v, g1) \<and>
    createLoadIfAlloca v g1 = (Value x, g2) \<and> isConst d \<longrightarrow>
      emitVariableDeclaration d sc g =
        Inr (Scope_set sc (declarationName d) (Value x)
               (if hasName g2 x then g2 else setName x (declarationName d) g2)) \<and>
      (case emitVariableDeclaration d sc g of
         Inl err \<Rightarrow> False
       | Inr g' \<Rightarrow>
           nextId g' = nextId g2 \<and>
           (\<forall>r. instructions (getBlock g' r) = instructions (getBlock g2 r)) \<and>
           (sc < length (scopes g2) \<longrightarrow>
              bindings (scopes g' ! sc) (declarationName d) = Some (Value x)))) \<and>
   (initializer d = Some e \<and> emitExpression e g = Inr (v, g1) \<and>
    createLoadIfAlloca v g1 = (Value x, g2) \<and> \<not> isConst d \<and>
    insertBlock g2 = Some (f, b) \<and> validBlock g2 (f, b) \<longrightarrow>
      (case emitVariableDeclaration d sc g of
         Inl err \<Rightarrow> False
       | Inr g' \<Rightarrow>
           instructions (getBlock g' (f, 0)) =
             instructions (getBlock g2 (f, 0)) @ [(nextId g2, Alloca (declarationType d))] @
               (if b = 0 then [(Suc (nextId g2), Store x (AllocaInst (nextId g2)))] else []) \<and>
           instructions (getBlock g' (f, b)) =
             instructions (getBlock g2 (f, b)) @
               (if b = 0 then [(nextId g2, Alloca (declarationType d))] else []) @
               [(Suc (nextId g2), Store x (AllocaInst (nextId g2)))] \<and>
           (\<forall>r. r \<noteq> (f, 0) \<and> r \<noteq> (f, b) \<longrightarrow>
              instructions (getBlock g' r) = instructions (getBlock g2 r)) \<and>
           valueNames g' (nextId g2) = Some (declarationName d) \<and>
           insertBlock g' = Some (f, b) \<and>
           (sc < length (scopes g2) \<longrightarrow>
              bindings (scopes g' ! sc) (declarationName d) = Some (Value (AllocaInst (nextId g2)))))) \<and>
   (initializer d = Some e \<and> emitExpression e g = Inr (Value y, g1) \<and>
    (\<forall>i. y \<noteq> AllocaInst i) \<and> isConst d \<longrightarrow>
      emitVariableDeclaration d sc g =
        Inr (Scope_set sc (declarationName d) (Value y)
               (if hasName g1 y then g1 else setName y (declarationName d) g1))) \<and>
   (initializer d = Some e \<and> emitExpression e g = Inr (Value (AllocaInst i), g1) \<and>
    isConst d \<and> insertBlock g1 = Some (f, b) \<and> validBlock g1 (f, b) \<longrightarrow>
      (case emitVariableDeclaration d sc g of
         Inl err \<Rightarrow> False
       | Inr g' \<Rightarrow>
           instructions (getBlock g' (f, b)) =
             instructions (getBlock g1 (f, b)) @ [(nextId g1, Load (AllocaInst i))] \<and>
           (\<forall>r. r \<noteq> (f, b) \<longrightarrow> instructions (getBlock g' r) = instructions (getBlock g1 r)) \<and>
           nextId g' = Suc (nextId g1) \<and>
           (sc < length (scopes g1) \<longrightarrow>
              bindings (scopes g' ! sc) (declarationName d) = Some (Value (LoadInst (nextId g1)))))) \<and>
   (initializer d = Some e \<and> emitExpression e g = Inr (Value (AllocaInst i), g1) \<and>
    \<not> isConst d \<and> insertBlock g1 = Some (f, b) \<and> validBlock g1 (f, b) \<longrightarrow>
      (case emitVariableDeclaration d sc g of
         Inl err \<Rightarrow> False
       | Inr g' \<Rightarrow>
           instructions (getBlock g' (f, b)) =
             instructions (getBlock g1 (f, b)) @ [(nextId g1, Load (AllocaInst i))] @
               (if b = 0 then [(Suc (nextId g1), Alloca (declarationType d))] else []) @
               [(Suc (Suc (nextId g1)), Store (LoadInst (nextId g1)) (AllocaInst (Suc (nextId g1))))] \<and>
           (b \<noteq> 0 \<longrightarrow>
              instructions (getBlock g' (f, 0)) =
                instructions (getBlock g1 (f, 0)) @ [(Suc (nextId g1), Alloca (declarationType d))]) \<and>
           (\<forall>r. r \<noteq> (f, 0) \<and> r \<noteq> (f, b) \<longrightarrow>
              instructions (getBlock g' r) = instructions (getBlock g1 r)) \<and>
           (sc < length (scopes g1) \<longrightarrow>
              bindings (scopes g' ! sc) (declarationName d) =
                Some (Value (AllocaInst (Suc (nextId g1)))))))"
proof (intro conjI)
  show "emitVariableStatement [d] sc g = emitVariableDeclaration d sc g"
    by (rule emitVariableDeclaration_resolved [THEN conjunct1])
next
  show "initializer d = Some e \<and> emitExpression e g = Inr (v, g1) \<and>
    createLoadIfAlloca v g1 = (Value x, g2) \<and> isConst d \<longrightarrow>
      emitVariableDeclaration d sc g =
        Inr (Scope_set sc (declarationName d) (Value x)
               (if hasName g2 x then g2 else setName x (declarationName d) g2)) \<and>
      (case emitVariableDeclaration d sc g of
         Inl err \<Rightarrow> False
       | Inr g' \<Rightarrow>
           nextId g' = nextId g2 \<and>
           (\<forall>r. instructions (getBlock g' r) = instructions (getBlock g2 r)) \<and>
           (sc < length (scopes g2) \<longrightarrow>
              bindings (scopes g' ! sc) (declarationName d) = Some (Value x)))"
    by (rule emitVariableDeclaration_resolved [THEN conjunct2, THEN conjunct1])
next
  show "initializer d = Some e \<and> emitExpression e g = Inr (v, g1) \<and>
    createLoadIfAlloca v g1 = (Value x, g2) \<and> \<not> isConst d \<and>
    insertBlock g2 = Some (f, b) \<and> validBlock g2 (f, b) \<longrightarrow>
      (case emitVariableDeclaration d sc g of
         Inl err \<Rightarrow> False
       | Inr g' \<Rightarrow>
           instructions (getBlock g' (f, 0)) =
             instructions (getBlock g2 (f, 0)) @ [(nextId g2, Alloca (declarationType d))] @
               (if b = 0 then [(Suc (nextId g2), Store x (AllocaInst (nextId g2)))] else []) \<and>
           instructions (getBlock g' (f, b)) =
             instructions (getBlock g2 (f, b)) @
               (if b = 0 then [(nextId g2, Alloca (declarationType d))] else []) @
               [(Suc (nextId g2), Store x (AllocaInst (nextId g2)))] \<and>
           (\<forall>r. r \<noteq> (f, 0) \<and> r \<noteq> (f, b) \<longrightarrow>
              instructions (getBlock g' r) = instructions (getBlock g2 r)) \<and>
           valueNames g' (nextId g2) = Some (declarationName d) \<and>
           insertBlock g' = Some (f, b) \<and>
           (sc < length (scopes g2) \<longrightarrow>
              bindings (scopes g' ! sc) (declarationName d) = Some (Value (AllocaInst (nextId g2)))))"
    by (rule emitVariableDeclaration_resolved [THEN conjunct2, THEN conjunct2])
next
  show "initializer d = Some e \<and> emitExpression e g = Inr (Value y, g1) \<and>
    (\<forall>i. y \<noteq> AllocaInst i) \<and> isConst d \<longrightarrow>
      emitVariableDeclaration d sc g =
        Inr (Scope_set sc (declarationName d) (Value y)
               (if hasName g1 y then g1 else setName y (declarationName d) g1))"
  proof
    assume a: "initializer d = Some e \<and> emitExpression e g = Inr (Value y, g1) \<and>
      (\<forall>i. y \<noteq> AllocaInst i) \<and> isConst d"
    then have "createLoadIfAlloca (Value y) g1 = (Value y, g1)"
      by (cases y) (simp_all add: createLoadIfAlloca_def)
    with a have prem: "initializer d = Some e \<and> emitExpression e g = Inr (Value y, g1) \<and>
        createLoadIfAlloca (Value y) g1 = (Value y, g1) \<and> isConst d"
      by simp
    show "emitVariableDeclaration d sc g =
        Inr (Scope_set sc (declarationName d) (Value y)
               (if hasName g1 y then g1 else setName y (declarationName d) g1))"
      by (rule emitVariableDeclaration_resolved [where d = d and e = e and g = g and v = "Value y"
            and ?g1.0 = g1 and x = y and ?g2.0 = g1 and sc = sc,
            THEN conjunct2, THEN conjunct1, THEN mp, OF prem, THEN conjunct1])
  qed
next
  show "initializer d = Some e \<and> emitExpression e g = Inr (Value (AllocaInst i), g1) \<and>
    isConst d \<and> insertBlock g1 = Some (f, b) \<and> validBlock g1 (f, b) \<longrightarrow>
      (case emitVariableDeclaration d sc g of
         Inl err \<Rightarrow> False
       | Inr g' \<Rightarrow>
           instructions (getBlock g' (f, b)) =
             instructions (getBlock g1 (f, b)) @ [(nextId g1, Load (AllocaInst i))] \<and>
           (\<forall>r. r \<noteq> (f, b) \<longrightarrow> instructions (getBlock g' r) = instructions (getBlock g1 r)) \<and>
           nextId g' = Suc (nextId g1) \<and>
           (sc < length (scopes g1) \<longrightarrow>
              bindings (scopes g' ! sc) (declarationName d) = Some (Value (LoadInst (nextId g1)))))"
  proof
    assume a: "initializer d = Some e \<and> emitExpression e g = Inr (Value (AllocaInst i), g1) \<and>
      isConst d \<and> insertBlock g1 = Some (f, b) \<and> validBlock g1 (f, b)"
    define g2 where "g2 = snd (insertInstruction (Load (AllocaInst i)) g1)"
    have cl: "createLoadIfAlloca (Value (AllocaInst i)) g1 = (Value (LoadInst (nextId g1)), g2)"
      by (simp add: createLoadIfAlloca_def createLoad_def g2_def insertInstruction_def)
    have ib: "insertBlock g1 = Some (f, b)" and vb: "validBlock g1 (f, b)" using a by simp_all
    have b2: "\<And>r. instructions (getBlock g2 r) = instructions (getBlock g1 r) @
        (if r = (f, b) then [(nextId g1, Load (AllocaInst i))] else [])"
      unfolding g2_def using getBlock_insertInstruction [OF ib vb] by simp
    have n2: "nextId g2 = Suc (nextId g1)" and s2: "scopes g2 = scopes g1"
      by (simp_all add: g2_def insertInstruction_def)
    from a cl have prem: "initializer d = Some e \<and>
        emitExpression e g = Inr (Value (AllocaInst i), g1) \<and>
        createLoadIfAlloca (Value (AllocaInst i)) g1 = (Value (LoadInst (nextId g1)), g2) \<and> isConst d"
      by simp
    have "case emitVariableDeclaration d sc g of
         Inl err \<Rightarrow> False
       | Inr g' \<Rightarrow>
           nextId g' = nextId g2 \<and>
           (\<forall>r. instructions (getBlock g' r) = instructions (getBlock g2 r)) \<and>
           (sc < length (scopes g2) \<longrightarrow>
              bindings (scopes g' ! sc) (declarationName d) = Some (Value (LoadInst (nextId g1))))"
      by (rule emitVariableDeclaration_resolved [where d = d and e = e and g = g
            and v = "Value (AllocaInst i)" and ?g1.0 = g1 and x = "LoadInst (nextId g1)"
            and ?g2.0 = g2 and sc = sc,
            THEN conjunct2, THEN conjunct1, THEN mp, OF prem, THEN conjunct2])
    then show "case emitVariableDeclaration d sc g of
         Inl err \<Rightarrow> False
       | Inr g' \<Rightarrow>
           instructions (getBlock g' (f, b)) =
             instructions (getBlock g1 (f, b)) @ [(nextId g1, Load (AllocaInst i))] \<and>
           (\<forall>r. r \<noteq> (f, b) \<longrightarrow> instructions (getBlock g' r) = instructions (getBlock g1 r)) \<and>
           nextId g' = Suc (nextId g1) \<and>
           (sc < length (scopes g1) \<longrightarrow>
              bindings (scopes g' ! sc) (declarationName d) = Some (Value (LoadInst (nextId g1))))"
      by (cases "emitVariableDeclaration d sc g") (simp_all add: b2 n2 s2)
  qed
next
  show "initializer d = Some e \<and> emitExpression e g = Inr (Value (AllocaInst i), g1) \<and>
    \<not> isConst d \<and> insertBlock g1 = Some (f, b) \<and> validBlock g1 (f, b) \<longrightarrow>
      (case emitVariableDeclaration d sc g of
         Inl err \<Rightarrow> False
       | Inr g' \<Rightarrow>
           instructions (getBlock g' (f, b)) =
             instructions (getBlock g1 (f, b)) @ [(nextId g1, Load (AllocaInst i))] @
               (if b = 0 then [(Suc (nextId g1), Alloca (declarationType d))] else []) @
               [(Suc (Suc (nextId g1)), Store (LoadInst (nextId g1)) (AllocaInst (Suc (nextId g1))))] \<and>
           (b \<noteq> 0 \<longrightarrow>
              instructions (getBlock g' (f, 0)) =
                instructions (getBlock g1 (f, 0)) @ [(Suc (nextId g1), Alloca (declarationType d))]) \<and>
           (\<forall>r. r \<noteq> (f, 0) \<and> r \<noteq> (f, b) \<longrightarrow>
              instructions (getBlock g' r) = instructions (getBlock g1 r)) \<and>
           (sc < length (scopes g1) \<longrightarrow>
              bindings (scopes g' ! sc) (declarationName d) =
                Some (Value (AllocaInst (Suc (nextId g1))))))"
  proof
    assume a: "initializer d = Some e \<and> emitExpression e g = Inr (Value (AllocaInst i), g1) \<and>
      \<not> isConst d \<and> insertBlock g1 = Some (f, b) \<and> validBlock g1 (f, b)"
    define g2 where "g2 = snd (insertInstruction (Load (AllocaInst i)) g1)"
    have cl: "createLoadIfAlloca (Value (AllocaInst i)) g1 = (Value (LoadInst (nextId g1)), g2)"
      by (simp add: createLoadIfAlloca_def createLoad_def g2_def insertInstruction_def)
    have ib: "insertBlock g1 = Some (f, b)" and vb: "validBlock g1 (f, b)" using a by simp_all
    have b2: "\<And>r. instructions (getBlock g2 r) = instructions (getBlock g1 r) @
        (if r = (f, b) then [(nextId g1, Load (AllocaInst i))] else [])"
      unfolding g2_def using getBlock_insertInstruction [OF ib vb] by simp
    have n2: "nextId g2 = Suc (nextId g1)" and s2: "scopes g2 = scopes g1"
      and i2: "insertBlock g2 = Some (f, b)"
      using ib by (simp_all add: g2_def insertInstruction_def)
    have v2: "validBlock g2 (f, b)"
      using ib vb
      by (simp add: g2_def insertInstruction_def validBlock_def appendInstructions_length
          appendInstructions_blocks_length)
    from a cl i2 v2 have prem: "initializer d = Some e \<and>
        emitExpression e g = Inr (Value (AllocaInst i), g1) \<and>
        createLoadIfAlloca (Value (AllocaInst i)) g1 = (Value (LoadInst (nextId g1)), g2) \<and>
        \<not> isConst d \<and> insertBlock g2 = Some (f, b) \<and> validBlock g2 (f, b)"
      by simp
    have "case emitVariableDeclaration d sc g of
         Inl err \<Rightarrow> False
       | Inr g' \<Rightarrow>
           instructions (getBlock g' (f, 0)) =
             instructions (getBlock g2 (f, 0)) @ [(nextId g2, Alloca (declarationType d))] @
               (if b = 0 then [(Suc (nextId g2), Store (LoadInst (nextId g1)) (AllocaInst (nextId g2)))] else []) \<and>
           instructions (getBlock g' (f, b)) =
             instructions (getBlock g2 (f, b)) @
               (if b = 0 then [(nextId g2, Alloca (declarationType d))] else []) @
               [(Suc (nextId g2), Store (LoadInst (nextId g1)) (AllocaInst (nextId g2)))] \<and>
           (\<forall>r. r \<noteq> (f, 0) \<and> r \<noteq> (f, b) \<longrightarrow>
              instructions (getBlock g' r) = instructions (getBlock g2 r)) \<and>
           valueNames g' (nextId g2) = Some (declarationName d) \<and>
           insertBlock g' = Some (f, b) \<and>
           (sc < length (scopes g2) \<longrightarrow>
              bindings (scopes g' ! sc) (declarationName d) = Some (Value (AllocaInst (nextId g2))))"
      by (rule emitVariableDeclaration_resolved [where d = d and e = e and g = g
            and v = "Value (AllocaInst i)" and ?g1.0 = g1 and x = "LoadInst (nextId g1)"
            and ?g2.0 = g2 and sc = sc and f = f and b = b,
            THEN conjunct2, THEN conjunct2, THEN mp, OF prem])
    then show "case emitVariableDeclaration d sc g of
         Inl err \<Rightarrow> False
       | Inr g' \<Rightarrow>
           instructions (getBlock g' (f, b)) =
             instructions (getBlock g1 (f, b)) @ [(nextId g1, Load (AllocaInst i))] @
               (if b = 0 then [(Suc (nextId g1), Alloca (declarationType d))] else []) @
               [(Suc (Suc (nextId g1)), Store (LoadInst (nextId g1)) (AllocaInst (Suc (nextId g1))))] \<and>
           (b \<noteq> 0 \<longrightarrow>
              instructions (getBlock g' (f, 0)) =
                instructions (getBlock g1 (f, 0)) @ [(Suc (nextId g1), Alloca (declarationType d))]) \<and>
           (\<forall>r. r \<noteq> (f, 0) \<and> r \<noteq> (f, b) \<longrightarrow>
              instructions (getBlock g' r) = instructions (getBlock g1 r)) \<and>
           (sc < length (scopes g1) \<longrightarrow>
              bindings (scopes g' ! sc) (declarationName d) =
                Some (Value (AllocaInst (Suc (nextId g1)))))"
      by (cases "emitVariableDeclaration d sc g") (auto simp add: b2 n2 s2)
  qed
qed

theorem variable_declaration_witness:
  "(case emitVariableDeclaration
          \<lparr>declarationName = ''t'', initializer = Some TrueKeyword, isConst = True,
            declarationType = Int1Ty\<rparr> 1 exampleBranch of
      Inl err \<Rightarrow> False
    | Inr g' \<Rightarrow>
        map instructions (basicBlocks (moduleFunctions g' ! 0)) = [[], []] \<and>
        nextId g' = 0 \<and>
        bindings (scopes g' ! 1) ''t'' = Some (Value ConstantTrue)) \<and>
   (case emitVariableDeclaration
          \<lparr>declarationName = ''s'',
            initializer = Some (BinaryExpression (Identifier ''c'') PlusToken (Identifier ''c'')),
            isConst = True, declarationType = DoubleTy\<rparr> 1 exampleBranch of
      Inl err \<Rightarrow> False
    | Inr g' \<Rightarrow>
        map instructions (basicBlocks (moduleFunctions g' ! 0)) =
          [[], [(0, FAdd (Argument 0 0) (Argument 0 0))]] \<and>
        valueNames g' 0 = Some ''s'' \<and>
        bindings (scopes g' ! 1) ''s'' = Some (Value (FAddInst 0))) \<and>
   (case emitVariableDeclaration
          \<lparr>declarationName = ''d'', initializer = Some (Identifier ''c''), isConst = True,
            declarationType = Int1Ty\<rparr> 1 exampleBranch of
      Inl err \<Rightarrow> False
    | Inr g' \<Rightarrow>
        argumentNames (moduleFunctions g' ! 0) = [''c''] \<and>
        bindings (scopes g' ! 1) ''d'' = Some (Value (Argument 0 0))) \<and>
   (case emitVariableDeclaration
          \<lparr>declarationName = ''x'', initializer = Some TrueKeyword, isConst = False,
            declarationType = Int1Ty\<rparr> 1 exampleBranch of
      Inl err \<Rightarrow> False
    | Inr g' \<Rightarrow>
        map instructions (basicBlocks (moduleFunctions g' ! 0)) =
          [[(0, Alloca Int1Ty)], [(1, Store ConstantTrue (AllocaInst 0))]] \<and>
        valueNames g' 0 = Some ''x'' \<and>
        insertBlock g' = Some (0, 1) \<and>
        bindings (scopes g' ! 1) ''x'' = Some (Value (AllocaInst 0))) \<and>
   emitExpression (Identifier ''x'') exampleSlots = Inr (Value (AllocaInst 0), exampleSlots) \<and>
   (case emitVariableDeclaration
          \<lparr>declarationName = ''t'', initializer = Some (Identifier ''x''), isConst = True,
            declarationType = Int1Ty\<rparr> 1 exampleSlots of
      Inl err \<Rightarrow> False
    | Inr g' \<Rightarrow>
        map instructions (basicBlocks (moduleFunctions g' ! 0)) =
          [[(0, Alloca Int1Ty), (1, Store ConstantTrue (AllocaInst 0)),
            (2, Alloca Int1Ty), (3, Store ConstantFalse (AllocaInst 2)),
            (4, Load (AllocaInst 0))]] \<and>
        nextId g' = 5 \<and>
        valueNames g' 4 = Some ''t'' \<and>
        bindings (scopes g' ! 1) ''t'' = Some (Value (LoadInst 4))) \<and>
   (case emitVariableDeclaration
          \<lparr>declarationName = ''z'', initializer = Some (Identifier ''y''), isConst = False,
            declarationType = Int1Ty\<rparr> 1 exampleSlots of
      Inl err \<Rightarrow> False
    | Inr g' \<Rightarrow>
        map instructions (basicBlocks (moduleFunctions g' ! 0)) =
          [[(0, Alloca Int1Ty), (1, Store ConstantTrue (AllocaInst 0)),
            (2, Alloca Int1Ty), (3, Store ConstantFalse (AllocaInst 2)),
            (4, Load (AllocaInst 2)), (5, Alloca Int1Ty), (6, Store (LoadInst 4) (AllocaInst 5))]] \<and>
        valueNames g' 5 = Some ''z'' \<and>
        bindings (scopes g' ! 1) ''z'' = Some (Value (AllocaInst 5)))"
  using variable_declaration [where d = "\<lparr>declarationName = ''t'', initializer = Some TrueKeyword,
        isConst = True, declarationType = Int1Ty\<rparr>" and sc = 1 and g = exampleBranch
      and e = TrueKeyword and v = "Value ConstantTrue" and ?g1.0 = exampleBranch
      and x = ConstantTrue and ?g2.0 = exampleBranch and f = 0 and b = 1 and y = ConstantTrue
      and i = 0]
    variable_declaration [where d = "\<lparr>declarationName = ''x'', initializer = Some TrueKeyword,
        isConst = False, declarationType = Int1Ty\<rparr>" and sc = 1 and g = exampleBranch
      and e = TrueKeyword and v = "Value ConstantTrue" and ?g1.0 = exampleBranch
      and x = ConstantTrue and ?g2.0 = exampleBranch and f = 0 and b = 1 and y = ConstantTrue
      and i = 0]
    variable_declaration [where d = "\<lparr>declarationName = ''t'', initializer = Some (Identifier ''x''),
        isConst = True, declarationType = Int1Ty\<rparr>" and sc = 1 and g = exampleSlots
      and e = "Identifier ''x''" and v = "Value (AllocaInst 0)" and ?g1.0 = exampleSlots
      and x = "LoadInst 4" and ?g2.0 = "snd (insertInstruction (Load (AllocaInst 0)) exampleSlots)"
      and f = 0 and b = 0 and y = ConstantTrue and i = 0]
    variable_declaration [where d = "\<lparr>declarationName = ''z'', initializer = Some (Identifier ''y''),
        isConst = False, declarationType = Int1Ty\<rparr>" and sc = 1 and g = exampleSlots
      and e = "Identifier ''y''" and v = "Value (AllocaInst 2)" and ?g1.0 = exampleSlots
      and x = "LoadInst 4" and ?g2.0 = "snd (insertInstruction (Load (AllocaInst 2)) exampleSlots)"
      and f = 0 and b = 0 and y = ConstantTrue and i = 2]
  by (simp add: generator_defs)

section \<open>Qualified access\<close>

text \<open>
  Claim C7, as stated: \<open>a.b\<close> is a fatal \<open>UnsupportedExpression\<close> whenever \<open>a\<close> is not a
  plain identifier or does not resolve to a namespace scope. It fails for an identifier
  that does not resolve at all: the lookup of \<open>a\<close> in the symbol table fails first, with
  \<open>UnresolvedName\<close>, and that is the failure of the expression.
\<close>

theorem qualified_access_unbound:
  "SymbolTable_get ''x'' newGenerator = Inl (UnresolvedName ''x'') \<and>
   emitExpression (PropertyAccessExpression (Identifier ''x'') ''b'') newGenerator =
     Inl (UnresolvedName ''x'')"
  by (simp add: emitPropertyAccessExpression_def SymbolTable_get_def newGenerator_def)

text \<open>
  Claim C7, amended: lowering \<open>a.b\<close> is \<open>emitPropertyAccessExpression\<close>, which never
  lowers \<open>a\<close>. When \<open>a\<close> is an identifier that the symbol table resolves to a namespace
  scope, the result is what \<open>b\<close> is bound to in that one scope (no ancestor is searched;
  \<open>undefined\<close> if the scope does not bind \<open>b\<close>), and the generator is unchanged. When
  \<open>a\<close> is an identifier that resolves to anything else, or is not an identifier, the
  result is the fatal \<open>UnsupportedExpression\<close>. When \<open>a\<close> is an identifier that the
  symbol table fails to resolve, the result is that failure.
\<close>

theorem qualified_access:
  "emitExpression (PropertyAccessExpression left b) g = emitPropertyAccessExpression left b g \<and>
   (SymbolTable_get a g = Inr (ScopeRef r) \<longrightarrow>
      emitPropertyAccessExpression (Identifier a) b g = Inr (Scope_get (scopes g ! r) b, g)) \<and>
   (SymbolTable_get a g = Inr v \<and> (\<forall>r. v \<noteq> ScopeRef r) \<longrightarrow>
      emitPropertyAccessExpression (Identifier a) b g =
        Inl (UnsupportedExpression ''Object property access not implemented yet'')) \<and>
   (\<not> isIdentifier left \<longrightarrow>
      emitPropertyAccessExpression left b g =
        Inl (UnsupportedExpression ''Object property access not implemented yet'')) \<and>
   (SymbolTable_get a g = Inl err \<longrightarrow>
      emitPropertyAccessExpression (Identifier a) b g = Inl err)"
  by (auto simp add: emitPropertyAccessExpression_def error_def isIdentifier_def
      split: scopeValue.splits expression.splits)

theorem qualified_access_witness:
  "SymbolTable_get ''M'' exampleModule = Inr (ScopeRef 1) \<and>
   bindings (scopes exampleModule ! 1) ''g'' = Some (Value (Function 0)) \<and>
   emitExpression (PropertyAccessExpression (Identifier ''M'') ''g'') exampleModule =
     Inr (Value (Function 0), exampleModule) \<and>
   SymbolTable_get ''k'' exampleModule = Inr (Value (Function 1)) \<and>
   emitExpression (PropertyAccessExpression (Identifier ''M'') ''k'') exampleModule =
     Inr (Undefined, exampleModule) \<and>
   emitExpression (PropertyAccessExpression (Identifier ''k'') ''g'') exampleModule =
     Inl (UnsupportedExpression ''Object property access not implemented yet'') \<and>
   emitExpression (PropertyAccessExpression (PropertyAccessExpression (Identifier ''M'') ''g'') ''x'')
       exampleModule =
     Inl (UnsupportedExpression ''Object property access not implemented yet'') \<and>
   emitExpression (PropertyAccessExpression (Identifier ''g'') ''x'') exampleModule =
     Inl (UnresolvedName ''g'')"
proof -
  have m: "SymbolTable_get ''M'' exampleModule = Inr (ScopeRef 1)"
    and k: "SymbolTable_get ''k'' exampleModule = Inr (Value (Function 1))"
    and u: "SymbolTable_get ''g'' exampleModule = Inl (UnresolvedName ''g'')"
    and b: "bindings (scopes exampleModule ! 1) ''g'' = Some (Value (Function 0))"
      "bindings (scopes exampleModule ! 1) ''k'' = None"
    by (simp_all add: generator_defs)
  show ?thesis
    using qualified_access [where left = "Identifier ''M''" and b = "''g''" and g = exampleModule
        and a = "''M''" and r = 1 and v = "ScopeRef 1" and err = "UnresolvedName ''g''"]
      qualified_access [where left = "Identifier ''M''" and b = "''k''" and g = exampleModule
        and a = "''M''" and r = 1 and v = "ScopeRef 1" and err = "UnresolvedName ''g''"]
      qualified_access [where left = "Identifier ''k''" and b = "''g''" and g = exampleModule
        and a = "''k''" and r = 1 and v = "Value (Function 1)" and err = "UnresolvedName ''g''"]
      qualified_access [where left = "PropertyAccessExpression (Identifier ''M'') ''g''" and b = "''x''"
        and g = exampleModule and a = "''g''" and r = 1 and v = "Value (Function 1)"
        and err = "UnresolvedName ''g''"]
    by (simp add: m k u b [unfolded One_nat_def] Scope_get_def isIdentifier_def)
qed

section \<open>Unhandled syntax\<close>



section \<open>Declarations without a body\<close>

text \<open>
  Claim C9. Lowering a function declaration that has no body always succeeds. It adds one
  function to the module, with external linkage, under the mangled name and with no basic
  block; it hands that function to the per-function verification; it binds the function
  in the enclosing scope under the simple name. It creates no scope object and leaves the
  stack of the symbol table, the insertion block and the warnings as they were.
\<close>

theorem declaration_without_body:
  "(case emitFunctionDeclaration name params ret None parentScope g of
      Inl e \<Rightarrow> False
    | Inr g' \<Rightarrow>
        moduleFunctions g' = moduleFunctions g @
          [\<lparr>functionName = mangleFunctionDeclaration name (scopes g ! parentScope),
            returnType = ret, parameterTypes = map snd params, linkage = ExternalLinkage,
            argumentNames = replicate (length params) [], basicBlocks = []\<rparr>] \<and>
        verifiedFunctions g' = verifiedFunctions g @ [length (moduleFunctions g)] \<and>
        scopes g' = (scopes g)[parentScope := (scopes g ! parentScope)\<lparr>bindings :=
          (bindings (scopes g ! parentScope))(name \<mapsto> Value (Function (length (moduleFunctions g))))\<rparr>] \<and>
        (parentScope < length (scopes g) \<longrightarrow>
           bindings (scopes g' ! parentScope) name = Some (Value (Function (length (moduleFunctions g))))) \<and>
        length (scopes g') = length (scopes g) \<and>
        scopeStack g' = scopeStack g \<and>
        insertBlock g' = insertBlock g \<and>
        nextId g' = nextId g \<and>
        warnings g' = warnings g)"
  by (simp add: Function_create_def verifyFunction_def wellFormedFunction_def Scope_set_def)

theorem declaration_without_body_witness:
  "(case emitFunctionDeclaration ''g'' [(''a'', Int1Ty)] VoidTy None 0 newGenerator of
      Inl e \<Rightarrow> False
    | Inr g' \<Rightarrow>
        map functionName (moduleFunctions g') = [''g''] \<and>
        map basicBlocks (moduleFunctions g') = [[]] \<and>
        verifiedFunctions g' = [0] \<and>
        bindings (scopes g' ! 0) ''g'' = Some (Value (Function 0)) \<and>
        length (scopes g') = 1 \<and>
        scopeStack g' = [0]) \<and>
   (case emitFunctionDeclaration ''g'' [] VoidTy None 1 (snd (newScope (Some ''M'') newGenerator)) of
      Inl e \<Rightarrow> False
    | Inr g' \<Rightarrow>
        map functionName (moduleFunctions g') = [''M__g''] \<and>
        map linkage (moduleFunctions g') = [ExternalLinkage] \<and>
        map basicBlocks (moduleFunctions g') = [[]] \<and>
        verifiedFunctions g' = [0] \<and>
        bindings (scopes g' ! 1) ''g'' = Some (Value (Function 0)) \<and>
        bindings (scopes g' ! 1) ''M__g'' = None \<and>
        length (scopes g') = 2 \<and>
        scopeStack g' = [0])"
  using declaration_without_body [where name = "''g''" and params = "[(''a'', Int1Ty)]" and ret = VoidTy
      and parentScope = 0 and g = newGenerator]
    declaration_without_body [where name = "''g''" and params = "[]" and ret = VoidTy
      and parentScope = 1 and g = "snd (newScope (Some ''M'') newGenerator)"]
  by (auto simp add: newGenerator_def newScope_def mangleFunctionDeclaration_def split: sum.splits)

section \<open>Assignment\<close>

text \<open>
  Claim C10. For an assignment \<open>a = b\<close> both sides are lowered, left first; the right
  value is loaded if it is a stack slot, and the store is created with the left value
  exactly as lowering \<open>a\<close> returned it: the left-hand side is never passed through the
  load. The value of the whole expression is the handle of the store instruction
  itself, not the right-hand value: with both sides lowered to values, the result is
  the store whose number is the next free one (after the load of the right-hand side,
  if there was one), and with a valid insertion block that store is the block's last
  instruction.
\<close>

theorem assignment_returns_store:
  "(emitExpression l g = Inr (lv, g1) \<and> emitExpression r g1 = Inr (rv, g2) \<longrightarrow>
      emitExpression (BinaryExpression l EqualsToken r) g =
        (case createLoadIfAlloca rv g2 of (v, g3) \<Rightarrow> createStore v lv g3)) \<and>
   (emitExpression l g = Inr (Value p, g1) \<and> emitExpression r g1 = Inr (Value x, g2) \<and>
    (\<forall>i. x \<noteq> AllocaInst i) \<longrightarrow>
      emitExpression (BinaryExpression l EqualsToken r) g =
        Inr (Value (StoreInst (nextId g2)), snd (insertInstruction (Store x p) g2))) \<and>
   (emitExpression l g = Inr (Value p, g1) \<and> emitExpression r g1 = Inr (Value (AllocaInst i), g2) \<longrightarrow>
      emitExpression (BinaryExpression l EqualsToken r) g =
        Inr (Value (StoreInst (Suc (nextId g2))),
             snd (insertInstruction (Store (LoadInst (nextId g2)) p)
                    (snd (insertInstruction (Load (AllocaInst i)) g2))))) \<and>
   (emitExpression l g = Inr (Value p, g1) \<and> emitExpression r g1 = Inr (Value x, g2) \<and>
    insertBlock g2 = Some b \<and> validBlock g2 b \<longrightarrow>
      (case emitExpression (BinaryExpression l EqualsToken r) g of
         Inr (Value (StoreInst n), g') \<Rightarrow>
           (\<exists>y. last (instructions (getBlock g' b)) = (n, Store y p))
       | _ \<Rightarrow> False))"
proof (intro conjI impI)
  assume "emitExpression l g = Inr (lv, g1) \<and> emitExpression r g1 = Inr (rv, g2)"
  then show "emitExpression (BinaryExpression l EqualsToken r) g =
        (case createLoadIfAlloca rv g2 of (v, g3) \<Rightarrow> createStore v lv g3)"
    by simp
next
  assume "emitExpression l g = Inr (Value p, g1) \<and> emitExpression r g1 = Inr (Value x, g2) \<and>
    (\<forall>i. x \<noteq> AllocaInst i)"
  then show "emitExpression (BinaryExpression l EqualsToken r) g =
        Inr (Value (StoreInst (nextId g2)), snd (insertInstruction (Store x p) g2))"
    by (cases x) (simp_all add: createLoadIfAlloca_def createStore_def insertInstruction_def)
next
  assume "emitExpression l g = Inr (Value p, g1) \<and> emitExpression r g1 = Inr (Value (AllocaInst i), g2)"
  then show "emitExpression (BinaryExpression l EqualsToken r) g =
        Inr (Value (StoreInst (Suc (nextId g2))),
             snd (insertInstruction (Store (LoadInst (nextId g2)) p)
                    (snd (insertInstruction (Load (AllocaInst i)) g2))))"
    by (simp add: createLoadIfAlloca_def createLoad_def createStore_def insertInstruction_def)
next
  assume a: "emitExpression l g = Inr (Value p, g1) \<and> emitExpression r g1 = Inr (Value x, g2) \<and>
    insertBlock g2 = Some b \<and> validBlock g2 b"
  then have ib: "insertBlock g2 = Some b" and vb: "validBlock g2 b" by simp_all
  show "case emitExpression (BinaryExpression l EqualsToken r) g of
         Inr (Value (StoreInst n), g') \<Rightarrow>
           (\<exists>y. last (instructions (getBlock g' b)) = (n, Store y p))
       | _ \<Rightarrow> False"
  proof (cases "\<exists>i. x = AllocaInst i")
    case False
    with a have "emitExpression (BinaryExpression l EqualsToken r) g =
        Inr (Value (StoreInst (nextId g2)), snd (insertInstruction (Store x p) g2))"
      by (cases x) (simp_all add: createLoadIfAlloca_def createStore_def insertInstruction_def)
    then show ?thesis
      using getBlock_insertInstruction [OF ib vb, of "Store x p" b] by simp
  next
    case True
    then obtain i where x: "x = AllocaInst i" by blast
    define g3 where "g3 = snd (insertInstruction (Load (AllocaInst i)) g2)"
    have i3: "insertBlock g3 = Some b" using ib by (simp add: g3_def insertInstruction_def)
    have v3: "validBlock g3 b"
      using ib vb
      by (simp add: g3_def insertInstruction_def validBlock_def appendInstructions_length
          appendInstructions_blocks_length)
    have n3: "nextId g3 = Suc (nextId g2)" by (simp add: g3_def insertInstruction_def)
    from a x have "emitExpression (BinaryExpression l EqualsToken r) g =
        Inr (Value (StoreInst (Suc (nextId g2))),
             snd (insertInstruction (Store (LoadInst (nextId g2)) p) g3))"
      by (simp add: g3_def createLoadIfAlloca_def createLoad_def createStore_def insertInstruction_def)
    then show ?thesis
      using getBlock_insertInstruction [OF i3 v3, of "Store (LoadInst (nextId g2)) p" b] n3 by simp
  qed
qed

theorem assignment_returns_store_witness:
  "map instructions (basicBlocks (moduleFunctions exampleSlots ! 0)) =
     [[(0, Alloca Int1Ty), (1, Store ConstantTrue (AllocaInst 0)),
       (2, Alloca Int1Ty), (3, Store ConstantFalse (AllocaInst 2))]] \<and>
   emitExpression (Identifier ''x'') exampleSlots = Inr (Value (AllocaInst 0), exampleSlots) \<and>
   emitExpression (Identifier ''y'') exampleSlots = Inr (Value (AllocaInst 2), exampleSlots) \<and>
   (case emitExpression (BinaryExpression (Identifier ''x'') EqualsToken (Identifier ''y'')) exampleSlots of
      Inr (v, g') \<Rightarrow>
        v = Value (StoreInst 5) \<and>
        map instructions (basicBlocks (moduleFunctions g' ! 0)) =
          [[(0, Alloca Int1Ty), (1, Store ConstantTrue (AllocaInst 0)),
            (2, Alloca Int1Ty), (3, Store ConstantFalse (AllocaInst 2)),
            (4, Load (AllocaInst 2)), (5, Store (LoadInst 4) (AllocaInst 0))]]
    | Inl e \<Rightarrow> False) \<and>
   (case emitExpression (BinaryExpression (Identifier ''x'') EqualsToken TrueKeyword) exampleSlots of
      Inr (v, g') \<Rightarrow>
        v = Value (StoreInst 4) \<and>
        map instructions (basicBlocks (moduleFunctions g' ! 0)) =
          [[(0, Alloca Int1Ty), (1, Store ConstantTrue (AllocaInst 0)),
            (2, Alloca Int1Ty), (3, Store ConstantFalse (AllocaInst 2)),
            (4, Store ConstantTrue (AllocaInst 0))]]
    | Inl e \<Rightarrow> False)"
  using assignment_returns_store [where l = "Identifier ''x''" and r = "Identifier ''y''"
      and g = exampleSlots and ?g1.0 = exampleSlots and ?g2.0 = exampleSlots
      and p = "AllocaInst 0" and x = "AllocaInst 2" and i = 2 and lv = "Value (AllocaInst 0)"
      and rv = "Value (AllocaInst 2)" and b = "(0, 0)"]
    assignment_returns_store [where l = "Identifier ''x''" and r = TrueKeyword
      and g = exampleSlots and ?g1.0 = exampleSlots and ?g2.0 = exampleSlots
      and p = "AllocaInst 0" and x = ConstantTrue and i = 2 and lv = "Value (AllocaInst 0)"
      and rv = "Value ConstantTrue" and b = "(0, 0)"]
  by (simp add: generator_defs)

end
